theory Spec2Isabelle
  imports Main "HOL-Library.Word"
begin

section \<open>Data model\<close>

text \<open>
  The module \<^verbatim>\<open>awscli/customizations/s3/fileinfo.py\<close> moves objects between the local
  file system and S3.  Everything it does beyond computing request parameters is an effect
  on the outside world (the file system, the remote store), performed through the standard
  library and through helpers of \<^verbatim>\<open>awscli.customizations.s3.utils\<close>.  The embedding
  keeps the module's own control flow and takes the outside world as an explicit state.
\<close>

type_synonym bytes = "8 word list"
type_synonym path = string

text \<open>Error numbers of the operating system, as far as they are told apart here.\<close>

datatype errno = EEXIST | ENOENT | EACCES | ENOTDIR | ENOSPC

text \<open>
  The exceptions that can leave a method of the module.  \<open>PyException\<close> is the bare
  \<^verbatim>\<open>Exception(msg)\<close> that \<^verbatim>\<open>move\<close> raises, \<open>MD5Error\<close> is the integrity error of
  \<^verbatim>\<open>check_etag\<close>, \<open>ServiceError\<close> stands for whatever the remote call raises.
\<close>

datatype error =
    KeyError string
  | TypeError string
  | IndexError
  | ValueError string
  | AttributeError string
  | PyException string
  | OSError errno
  | IOError errno
  | MD5Error
  | ServiceError string

text \<open>
  A value of the option bag \<^verbatim>\<open>self.parameters\<close>: \<^verbatim>\<open>None\<close>, a flag, or the list of
  strings that the argument parser stores for an option.
\<close>

datatype pval = PNone | PBool bool | PList "string list"

type_synonym parameters = "string \<rightharpoonup> pval"

datatype endpoint = Endpoint string

text \<open>A value of the request parameter dictionary \<^verbatim>\<open>params\<close>.\<close>

datatype rval =
    RStr string
  | RBody bytes
  | REndpoint "endpoint option"
  | RDict "(string \<times> string option) list"

type_synonym request = "string \<rightharpoonup> rval"

text \<open>The parsed response \<^verbatim>\<open>response_data\<close>: the keys that the module reads.\<close>

record response =
  Body :: "bytes option"
  ETag :: "string option"
  UploadId :: "string option"

text \<open>
  \<^verbatim>\<open>datetime\<close> and the \<^verbatim>\<open>struct_time\<close> that \<^verbatim>\<open>timetuple()\<close> makes of it.  The field
  \<open>isdst\<close> stands for what the time zone of the \<^verbatim>\<open>datetime\<close> says about daylight
  saving (\<open>-1\<close> without a time zone); the fields \<^verbatim>\<open>tm_wday\<close> and \<^verbatim>\<open>tm_yday\<close> are
  functions of the date and are left out.
\<close>

record datetime =
  year :: nat
  month :: nat
  day :: nat
  hour :: nat
  minute :: nat
  second :: nat
  microsecond :: nat
  isdst :: int

record struct_time =
  tm_year :: nat
  tm_mon :: nat
  tm_mday :: nat
  tm_hour :: nat
  tm_min :: nat
  tm_sec :: nat
  tm_isdst :: int

definition timetuple :: "datetime \<Rightarrow> struct_time" where
  "timetuple d =
     \<lparr>tm_year = year d, tm_mon = month d, tm_mday = day d, tm_hour = hour d,
      tm_min = minute d, tm_sec = second d, tm_isdst = isdst d\<rparr>"

text \<open>\<^verbatim>\<open>TaskInfo\<close> and its subclass \<^verbatim>\<open>FileInfo\<close>.\<close>

record taskinfo =
  src :: string
  src_type :: "string option"
  operation :: "string option"
  region :: "string option"
  endpoint :: "endpoint option"

record fileinfo = taskinfo +
  dest :: string
  dest_type :: "string option"
  compare_key :: "string option"
  size_bytes :: "int option"
  last_update :: "datetime option"
  parameters :: parameters

section \<open>The outside world\<close>

text \<open>
  What a method did is recorded in a trace, one event for every call that leaves the
  module: a remote operation with its parameters, or a file system call.
\<close>

datatype event =
    Call string request
  | ReadFile path
  | MakeDirs path
  | WriteFile path bytes
  | Utime path int int
  | Remove path

record 'x world =
  extern :: 'x
  trace :: "event list"

text \<open>
  The collaborators of the module, none of which is defined in it: the remote call
  \<^verbatim>\<open>operate\<close> and the pure helpers of \<^verbatim>\<open>utils\<close>, \<^verbatim>\<open>botocore.compat.quote\<close>,
  the checksum of \<^verbatim>\<open>hashlib\<close>, and the calls of \<^verbatim>\<open>os\<close> and \<^verbatim>\<open>time\<close>.  Each call
  that can raise returns an error or a value, together with the new state of the outside
  world \<open>'x\<close>.  \<^verbatim>\<open>time.mktime\<close> returns a float that holds a whole number of seconds
  (a \<^verbatim>\<open>struct_time\<close> has no fraction), so \<^verbatim>\<open>int\<close> of it is that number.
\<close>

record ('x, 'h) env =
  svc_operate :: "string \<Rightarrow> request \<Rightarrow> 'x \<Rightarrow> (error + response \<times> 'h) \<times> 'x"
  retrieve_http_etag :: "'h \<Rightarrow> string"
  find_bucket_key :: "string \<Rightarrow> string \<times> string"
  guess_content_type :: "string \<Rightarrow> string option"
  checksum :: "bytes \<Rightarrow> string"
  quote :: "string \<Rightarrow> string"
  os_open_read :: "path \<Rightarrow> 'x \<Rightarrow> (error + bytes) \<times> 'x"
  os_path_dirname :: "path \<Rightarrow> path"
  os_path_exists :: "path \<Rightarrow> 'x \<Rightarrow> bool"
  os_makedirs :: "path \<Rightarrow> 'x \<Rightarrow> (error + unit) \<times> 'x"
  os_open_write :: "path \<Rightarrow> bytes \<Rightarrow> 'x \<Rightarrow> (error + unit) \<times> 'x"
  os_utime :: "path \<Rightarrow> int \<times> int \<Rightarrow> 'x \<Rightarrow> (error + unit) \<times> 'x"
  os_remove :: "path \<Rightarrow> 'x \<Rightarrow> (error + unit) \<times> 'x"
  time_mktime :: "struct_time \<Rightarrow> int"

section \<open>Sequencing with exceptions\<close>

text \<open>A statement either raises or returns, and leaves a world behind in both cases.\<close>

type_synonym ('a, 'x) prog = "'x world \<Rightarrow> (error + 'a) \<times> 'x world"

definition bindE :: "error + 'a \<Rightarrow> ('a \<Rightarrow> error + 'b) \<Rightarrow> error + 'b" where
  "bindE m f = (case m of Inl e \<Rightarrow> Inl e | Inr a \<Rightarrow> f a)"

definition pbind :: "('a, 'x) prog \<Rightarrow> ('a \<Rightarrow> ('b, 'x) prog) \<Rightarrow> ('b, 'x) prog" where
  "pbind m f = (\<lambda>w. case m w of (Inl e, w') \<Rightarrow> (Inl e, w') | (Inr a, w') \<Rightarrow> f a w')"

definition lift :: "error + 'a \<Rightarrow> ('a, 'x) prog" where
  "lift r = (\<lambda>w. (r, w))"

text \<open>A call that leaves the module: run it on the outside world and record it.\<close>

definition effect :: "event \<Rightarrow> ('x \<Rightarrow> (error + 'a) \<times> 'x) \<Rightarrow> ('a, 'x) prog" where
  "effect ev f =
     (\<lambda>w. case f (extern w) of (r, x') \<Rightarrow> (r, \<lparr>extern = x', trace = trace w @ [ev]\<rparr>))"

text \<open>\<^verbatim>\<open>try: ... except Exception: pass\<close>\<close>

definition try_pass :: "(unit, 'x) prog \<Rightarrow> (unit, 'x) prog" where
  "try_pass m = (\<lambda>w. case m w of (r, w') \<Rightarrow> (Inr (), w'))"

text \<open>\<^verbatim>\<open>d[k]\<close> on a dictionary, the truth value of an option, and \<^verbatim>\<open>v[0]\<close>.\<close>

definition getitem :: "(string \<rightharpoonup> 'v) \<Rightarrow> string \<Rightarrow> error + 'v" where
  "getitem d k = (case d k of None \<Rightarrow> Inl (KeyError k) | Some v \<Rightarrow> Inr v)"

fun truthy :: "pval \<Rightarrow> bool" where
  "truthy PNone = False"
| "truthy (PBool b) = b"
| "truthy (PList xs) = (xs \<noteq> [])"

fun subscript0 :: "pval \<Rightarrow> error + string" where
  "subscript0 (PList (x # xs)) = Inr x"
| "subscript0 (PList []) = Inl IndexError"
| "subscript0 (PBool b) = Inl (TypeError ''bool object is not subscriptable'')"
| "subscript0 PNone = Inl (TypeError ''NoneType object is not subscriptable'')"

fun iter_list :: "pval \<Rightarrow> error + string list" where
  "iter_list (PList xs) = Inr xs"
| "iter_list (PBool b) = Inl (TypeError ''bool object is not iterable'')"
| "iter_list PNone = Inl (TypeError ''NoneType object is not iterable'')"

text \<open>\<^verbatim>\<open>s.split(c, 1)\<close>: one piece, or the two pieces around the first \<open>c\<close>.\<close>

definition split1 :: "char \<Rightarrow> string \<Rightarrow> string list" where
  "split1 c s =
     (if c \<in> set s then [takeWhile (\<lambda>x. x \<noteq> c) s, tl (dropWhile (\<lambda>x. x \<noteq> c) s)] else [s])"

section \<open>The helpers of the module\<close>

definition operate :: "('x, 'h) env \<Rightarrow> string \<Rightarrow> request \<Rightarrow> (response \<times> 'h, 'x) prog" where
  "operate E name params = effect (Call name params) (svc_operate E name params)"

text \<open>
  Modelled from the spec: \<^verbatim>\<open>check_etag\<close> of \<^verbatim>\<open>awscli.customizations.s3.utils\<close> is
  not part of the sources at hand.  The spec has it compare the checksum computed locally
  from the bytes with the checksum that the store reported, a mismatch being an integrity
  failure of its own kind.
\<close>

definition check_etag :: "('x, 'h) env \<Rightarrow> string \<Rightarrow> bytes \<Rightarrow> error + unit" where
  "check_etag E etag data = (if etag = checksum E data then Inr () else Inl MD5Error)"

definition read_file :: "('x, 'h) env \<Rightarrow> path \<Rightarrow> (bytes, 'x) prog" where
  "read_file E filename = effect (ReadFile filename) (os_open_read E filename)"

text \<open>\<^verbatim>\<open>response_data['ETag'][1:-1]\<close> drops the first and the last character.\<close>

definition strip_ends :: "string \<Rightarrow> string" where
  "strip_ends s = butlast (tl s)"

definition save_file ::
  "('x, 'h) env \<Rightarrow> path \<Rightarrow> response \<Rightarrow> datetime option \<Rightarrow> (unit, 'x) prog" where
  "save_file E filename response_data last_upd =
     pbind (lift (case Body response_data of None \<Rightarrow> Inl (KeyError ''Body'') | Some b \<Rightarrow> Inr b))
       (\<lambda>data.
     pbind (lift (case ETag response_data of None \<Rightarrow> Inl (KeyError ''ETag'')
                  | Some e \<Rightarrow> Inr (strip_ends e)))
       (\<lambda>etag.
     pbind (lift (check_etag E etag data))
       (\<lambda>_.
     let d = os_path_dirname E filename in
     pbind (try_pass (\<lambda>w. if \<not> os_path_exists E d (extern w)
                           then effect (MakeDirs d) (os_makedirs E d) w
                           else (Inr (), w)))
       (\<lambda>_.
     pbind (effect (WriteFile filename data) (os_open_write E filename data))
       (\<lambda>_.
     pbind (lift (case last_upd of
                    None \<Rightarrow> Inl (AttributeError ''timetuple'')
                  | Some lu \<Rightarrow> Inr (timetuple lu)))
       (\<lambda>last_update_tuple.
     let mod_timestamp = time_mktime E last_update_tuple in
     effect (Utime filename mod_timestamp mod_timestamp)
       (os_utime E filename (mod_timestamp, mod_timestamp))))))))"

section \<open>\<^verbatim>\<open>TaskInfo\<close>\<close>

definition make_bucket_params :: "('x, 'h) env \<Rightarrow> 'a taskinfo_scheme \<Rightarrow> request" where
  "make_bucket_params E t =
     (let (bucket, key) = find_bucket_key E (src t);
          bucket_config = RDict [(''LocationConstraint'', region t)];
          params = [''endpoint'' \<mapsto> REndpoint (endpoint t), ''bucket'' \<mapsto> RStr bucket]
      in if region t \<noteq> Some ''us-east-1''
         then params(''create_bucket_configuration'' \<mapsto> bucket_config)
         else params)"

definition make_bucket :: "('x, 'h) env \<Rightarrow> 'a taskinfo_scheme \<Rightarrow> (unit, 'x) prog" where
  "make_bucket E t =
     pbind (operate E ''CreateBucket'' (make_bucket_params E t)) (\<lambda>_. lift (Inr ()))"

definition remove_bucket :: "('x, 'h) env \<Rightarrow> 'a taskinfo_scheme \<Rightarrow> (unit, 'x) prog" where
  "remove_bucket E t =
     (let (bucket, key) = find_bucket_key E (src t);
          params = [''endpoint'' \<mapsto> REndpoint (endpoint t), ''bucket'' \<mapsto> RStr bucket]
      in pbind (operate E ''DeleteBucket'' params) (\<lambda>_. lift (Inr ())))"

section \<open>\<^verbatim>\<open>FileInfo\<close>: the option pipeline\<close>

definition permission_to_param :: "string \<Rightarrow> error + string" where
  "permission_to_param permission =
     (if permission = ''read'' then Inr ''grant_read''
      else if permission = ''full'' then Inr ''grant_full_control''
      else if permission = ''readacl'' then Inr ''grant_read_acp''
      else if permission = ''writeacl'' then Inr ''grant_write_acp''
      else Inl (ValueError ''permission must be one of: read|readacl|writeacl|full''))"

text \<open>The loop over \<^verbatim>\<open>self.parameters['grants']\<close>.\<close>

fun grants_loop :: "string list \<Rightarrow> request \<Rightarrow> error + request" where
  "grants_loop [] params = Inr params"
| "grants_loop (grant # rest) params =
     (case split1 (CHR ''='') grant of
        [permission, grantee] \<Rightarrow>
          bindE (permission_to_param permission)
            (\<lambda>k. grants_loop rest (params(k \<mapsto> RStr grantee)))
      | _ \<Rightarrow> Inl (ValueError ''grants should be of the form permission=principal''))"

definition inject_content_type :: "('x, 'h) env \<Rightarrow> request \<Rightarrow> string \<Rightarrow> request" where
  "inject_content_type E params filename =
     (case guess_content_type E filename of
        Some guessed_type \<Rightarrow> params(''content_type'' \<mapsto> RStr guessed_type)
      | None \<Rightarrow> params)"

text \<open>
  The statement \<^verbatim>\<open>if self.parameters[opt]: params[key] = self.parameters[opt][0]\<close>,
  which the method repeats for nine options.
\<close>

definition set_first :: "parameters \<Rightarrow> string \<Rightarrow> string \<Rightarrow> request \<Rightarrow> error + request" where
  "set_first ps opt key params =
     bindE (getitem ps opt)
       (\<lambda>v. if truthy v then bindE (subscript0 v) (\<lambda>x. Inr (params(key \<mapsto> RStr x)))
            else Inr params)"

definition handle_grants :: "parameters \<Rightarrow> request \<Rightarrow> error + request" where
  "handle_grants ps params =
     bindE (getitem ps ''grants'')
       (\<lambda>v. if truthy v then bindE (iter_list v) (\<lambda>gs. grants_loop gs params)
            else Inr params)"

definition handle_sse :: "parameters \<Rightarrow> request \<Rightarrow> error + request" where
  "handle_sse ps params =
     bindE (getitem ps ''sse'')
       (\<lambda>v. if truthy v then Inr (params(''server_side_encryption'' \<mapsto> RStr ''AES256''))
            else Inr params)"

definition handle_guess :: "('x, 'h) env \<Rightarrow> parameters \<Rightarrow> string \<Rightarrow> request \<Rightarrow> error + request"
  where
  "handle_guess E ps source params =
     bindE (getitem ps ''guess_mime_type'')
       (\<lambda>v. if truthy v then Inr (inject_content_type E params source) else Inr params)"

definition handle_object_params ::
  "('x, 'h) env \<Rightarrow> 'a fileinfo_scheme \<Rightarrow> request \<Rightarrow> error + request" where
  "handle_object_params E t params =
     (let ps = parameters t in
      bindE (set_first ps ''acl'' ''acl'' params) (\<lambda>params.
      bindE (handle_grants ps params) (\<lambda>params.
      bindE (handle_sse ps params) (\<lambda>params.
      bindE (set_first ps ''storage_class'' ''storage_class'' params) (\<lambda>params.
      bindE (set_first ps ''website_redirect'' ''website_redirect_location'' params) (\<lambda>params.
      bindE (handle_guess E ps (src t) params) (\<lambda>params.
      bindE (set_first ps ''content_type'' ''content_type'' params) (\<lambda>params.
      bindE (set_first ps ''cache_control'' ''cache_control'' params) (\<lambda>params.
      bindE (set_first ps ''content_disposition'' ''content_disposition'' params) (\<lambda>params.
      bindE (set_first ps ''content_encoding'' ''content_encoding'' params) (\<lambda>params.
      bindE (set_first ps ''content_language'' ''content_language'' params) (\<lambda>params.
      set_first ps ''expires'' ''expires'' params))))))))))))"

section \<open>\<^verbatim>\<open>FileInfo\<close>: the transfers\<close>

text \<open>
  \<^verbatim>\<open>StringIO(body)\<close> and \<^verbatim>\<open>bytearray(body)\<close> hold the same bytes; the body parameter
  is those bytes.
\<close>

definition upload_params :: "('x, 'h) env \<Rightarrow> 'a fileinfo_scheme \<Rightarrow> bytes \<Rightarrow> request" where
  "upload_params E t body =
     (let (bucket, key) = find_bucket_key E (dest t);
          params = [''endpoint'' \<mapsto> REndpoint (endpoint t), ''bucket'' \<mapsto> RStr bucket,
                    ''key'' \<mapsto> RStr key]
      in if body \<noteq> [] then params(''body'' \<mapsto> RBody body) else params)"

definition upload :: "('x, 'h) env \<Rightarrow> 'a fileinfo_scheme \<Rightarrow> (unit, 'x) prog" where
  "upload E t =
     pbind (read_file E (src t)) (\<lambda>body.
     pbind (lift (handle_object_params E t (upload_params E t body))) (\<lambda>params.
     pbind (operate E ''PutObject'' params) (\<lambda>(response_data, http).
     let etag = retrieve_http_etag E http in
     lift (check_etag E etag body))))"

definition object_params :: "('x, 'h) env \<Rightarrow> 'a fileinfo_scheme \<Rightarrow> string \<Rightarrow> request" where
  "object_params E t location =
     (let (bucket, key) = find_bucket_key E location
      in [''endpoint'' \<mapsto> REndpoint (endpoint t), ''bucket'' \<mapsto> RStr bucket,
          ''key'' \<mapsto> RStr key])"

definition download :: "('x, 'h) env \<Rightarrow> 'a fileinfo_scheme \<Rightarrow> (unit, 'x) prog" where
  "download E t =
     pbind (operate E ''GetObject'' (object_params E t (src t))) (\<lambda>(response_data, http).
     save_file E (dest t) response_data (last_update t))"

definition copy_params :: "('x, 'h) env \<Rightarrow> 'a fileinfo_scheme \<Rightarrow> request" where
  "copy_params E t =
     (let copy_source = quote E (src t);
          (bucket, key) = find_bucket_key E (dest t)
      in [''endpoint'' \<mapsto> REndpoint (endpoint t), ''bucket'' \<mapsto> RStr bucket,
          ''copy_source'' \<mapsto> RStr copy_source, ''key'' \<mapsto> RStr key])"

definition copy :: "('x, 'h) env \<Rightarrow> 'a fileinfo_scheme \<Rightarrow> (unit, 'x) prog" where
  "copy E t =
     pbind (lift (handle_object_params E t (copy_params E t))) (\<lambda>params.
     pbind (operate E ''CopyObject'' params) (\<lambda>_. lift (Inr ())))"

definition delete :: "('x, 'h) env \<Rightarrow> 'a fileinfo_scheme \<Rightarrow> (unit, 'x) prog" where
  "delete E t =
     (if src_type t = Some ''s3''
      then pbind (operate E ''DeleteObject'' (object_params E t (src t))) (\<lambda>_. lift (Inr ()))
      else effect (Remove (src t)) (os_remove E (src t)))"

text \<open>The \<^verbatim>\<open>if\<close>/\<^verbatim>\<open>elif\<close>/\<^verbatim>\<open>else\<close> of \<^verbatim>\<open>move\<close>, and \<^verbatim>\<open>move\<close> itself.\<close>

definition move_transfer :: "('x, 'h) env \<Rightarrow> 'a fileinfo_scheme \<Rightarrow> (unit, 'x) prog" where
  "move_transfer E t =
     (if src_type t = Some ''local'' \<and> dest_type t = Some ''s3'' then upload E t
      else if src_type t = Some ''s3'' \<and> dest_type t = Some ''s3'' then copy E t
      else if src_type t = Some ''s3'' \<and> dest_type t = Some ''local'' then download E t
      else lift (Inl (PyException ''Invalid path arguments for mv'')))"

definition move :: "('x, 'h) env \<Rightarrow> 'a fileinfo_scheme \<Rightarrow> (unit, 'x) prog" where
  "move E t = pbind (move_transfer E t) (\<lambda>_. delete E t)"

definition create_multipart_upload ::
  "('x, 'h) env \<Rightarrow> 'a fileinfo_scheme \<Rightarrow> (string, 'x) prog" where
  "create_multipart_upload E t =
     pbind (lift (handle_object_params E t (object_params E t (dest t)))) (\<lambda>params.
     pbind (operate E ''CreateMultipartUpload'' params) (\<lambda>(response_data, http).
     lift (case UploadId response_data of
             None \<Rightarrow> Inl (KeyError ''UploadId'')
           | Some upload_id \<Rightarrow> Inr upload_id)))"

section \<open>Notions used to state the properties\<close>

text \<open>A step of the option pipeline keeps the key \<open>k\<close> of the request.\<close>

definition keeps :: "string \<Rightarrow> (request \<Rightarrow> error + request) \<Rightarrow> bool" where
  "keeps k f \<longleftrightarrow> (\<forall>p p'. f p = Inr p' \<longrightarrow> p' k = p k)"

definition request_keys :: "string set" where
  "request_keys = {''endpoint'', ''bucket'', ''key'', ''body'', ''copy_source''}"

text \<open>Remote calls, and the two ways in which \<^verbatim>\<open>delete\<close> reaches the outside world.\<close>

fun is_call :: "event \<Rightarrow> bool" where
  "is_call (Call name params) = True"
| "is_call ev = False"

fun is_delete :: "event \<Rightarrow> bool" where
  "is_delete (Call name params) = (name = ''DeleteObject'')"
| "is_delete (Remove p) = True"
| "is_delete ev = False"

text \<open>A statement adds no event of the kind \<open>P\<close> to the trace.\<close>

definition quiet :: "(event \<Rightarrow> bool) \<Rightarrow> ('a, 'x) prog \<Rightarrow> bool" where
  "quiet P m \<longleftrightarrow> (\<forall>w. filter P (trace (snd (m w))) = filter P (trace w))"

text \<open>
  A grant as the spec words it: an entry \<open>permission=principal\<close>, cut at the first
  \<open>=\<close>, with one of four permissions, each of which has its slot in the request.
\<close>

definition grant_permission :: "string \<Rightarrow> string" where
  "grant_permission g = takeWhile (\<lambda>c. c \<noteq> CHR ''='') g"

definition grant_principal :: "string \<Rightarrow> string" where
  "grant_principal g = tl (dropWhile (\<lambda>c. c \<noteq> CHR ''='') g)"

definition grant_ok :: "string \<Rightarrow> bool" where
  "grant_ok g \<longleftrightarrow>
     CHR ''='' \<in> set g \<and> grant_permission g \<in> {''read'', ''full'', ''readacl'', ''writeacl''}"

definition grant_slot :: "string \<Rightarrow> string" where
  "grant_slot permission =
     (if permission = ''read'' then ''grant_read''
      else if permission = ''full'' then ''grant_full_control''
      else if permission = ''readacl'' then ''grant_read_acp''
      else ''grant_write_acp'')"

definition assign_grant :: "string \<Rightarrow> request \<Rightarrow> request" where
  "assign_grant g params = params(grant_slot (grant_permission g) \<mapsto> RStr (grant_principal g))"

definition grant_error :: "string \<Rightarrow> error" where
  "grant_error g =
     (if CHR ''='' \<in> set g
      then ValueError ''permission must be one of: read|readacl|writeacl|full''
      else ValueError ''grants should be of the form permission=principal'')"

text \<open>
  The statements of \<^verbatim>\<open>save_file\<close> that follow its \<^verbatim>\<open>try\<close> block: write the
  bytes, then set the times.  And the whole seconds of a \<^verbatim>\<open>datetime\<close>.
\<close>

definition write_and_stamp ::
  "('x, 'h) env \<Rightarrow> path \<Rightarrow> bytes \<Rightarrow> datetime option \<Rightarrow> (unit, 'x) prog" where
  "write_and_stamp E filename data last_upd =
     pbind (effect (WriteFile filename data) (os_open_write E filename data))
       (\<lambda>_.
     pbind (lift (case last_upd of
                    None \<Rightarrow> Inl (AttributeError ''timetuple'')
                  | Some lu \<Rightarrow> Inr (timetuple lu)))
       (\<lambda>last_update_tuple.
     let mod_timestamp = time_mktime E last_update_tuple in
     effect (Utime filename mod_timestamp mod_timestamp)
       (os_utime E filename (mod_timestamp, mod_timestamp))))"

definition seconds_of :: "('x, 'h) env \<Rightarrow> datetime \<Rightarrow> int" where
  "seconds_of E lu = time_mktime E (timetuple (lu\<lparr>microsecond := 0\<rparr>))"

section \<open>An outside world in memory\<close>

text \<open>
  A small file system and object store on which the methods can be run: files with their
  bytes and times, a list of directories, and the stored objects by \<open>bucket/key\<close>.  The
  store reports the checksum of what it holds, or a wrong one when asked to corrupt.
\<close>

record local_file =
  content :: bytes
  atime :: int
  mtime :: int

record mem =
  files :: "path \<rightharpoonup> local_file"
  dirs :: "path list"
  objects :: "string \<rightharpoonup> bytes"

definition toy_checksum :: "bytes \<Rightarrow> string" where
  "toy_checksum data = map (\<lambda>b. if b = 0 then CHR ''0'' else CHR ''1'') data"

definition mem_etag :: "bool \<Rightarrow> bytes \<Rightarrow> string" where
  "mem_etag corrupt data = (if corrupt then ''bad'' else toy_checksum data)"

definition quoted :: "string \<Rightarrow> string" where
  "quoted s = CHR 0x22 # s @ [CHR 0x22]"

definition req_str :: "request \<Rightarrow> string \<Rightarrow> string" where
  "req_str p k = (case p k of Some (RStr s) \<Rightarrow> s | _ \<Rightarrow> [])"

definition object_name :: "request \<Rightarrow> string" where
  "object_name p = req_str p ''bucket'' @ ''/'' @ req_str p ''key''"

definition no_data :: response where
  "no_data = \<lparr>Body = None, ETag = None, UploadId = None\<rparr>"

definition mem_operate ::
  "bool \<Rightarrow> string \<Rightarrow> request \<Rightarrow> mem \<Rightarrow> (error + response \<times> string) \<times> mem" where
  "mem_operate corrupt name p x =
     (if name = ''PutObject'' then
        (let data = (case p ''body'' of Some (RBody d) \<Rightarrow> d | _ \<Rightarrow> [])
         in (Inr (no_data\<lparr>ETag := Some (quoted (mem_etag corrupt data))\<rparr>,
                  mem_etag corrupt data),
             x\<lparr>objects := (objects x)(object_name p \<mapsto> data)\<rparr>))
      else if name = ''GetObject'' then
        (case objects x (object_name p) of
           None \<Rightarrow> (Inl (ServiceError ''NoSuchKey''), x)
         | Some data \<Rightarrow>
             (Inr (no_data\<lparr>Body := Some data, ETag := Some (quoted (mem_etag corrupt data))\<rparr>,
                   mem_etag corrupt data), x))
      else if name = ''CopyObject'' then
        (case objects x (req_str p ''copy_source'') of
           None \<Rightarrow> (Inl (ServiceError ''NoSuchKey''), x)
         | Some data \<Rightarrow>
             (Inr (no_data, []), x\<lparr>objects := (objects x)(object_name p \<mapsto> data)\<rparr>))
      else if name = ''DeleteObject'' then
        (Inr (no_data, []), x\<lparr>objects := (objects x)(object_name p := None)\<rparr>)
      else if name = ''CreateBucket'' \<or> name = ''DeleteBucket'' then (Inr (no_data, []), x)
      else if name = ''CreateMultipartUpload'' then
        (Inr (no_data\<lparr>UploadId := Some ''upload-1''\<rparr>, []), x)
      else (Inl (ServiceError ''UnknownOperation''), x))"

definition mem_find_bucket_key :: "string \<Rightarrow> string \<times> string" where
  "mem_find_bucket_key s =
     (takeWhile (\<lambda>c. c \<noteq> CHR ''/'') s, tl (dropWhile (\<lambda>c. c \<noteq> CHR ''/'') s))"

definition toy_guess :: "string \<Rightarrow> string option" where
  "toy_guess filename =
     (if take 5 (rev filename) = ''nosj.'' then Some ''application/json''
      else if take 4 (rev filename) = ''txt.'' then Some ''text/plain''
      else None)"

definition mem_dirname :: "path \<Rightarrow> path" where
  "mem_dirname p =
     (let h = dropWhile (\<lambda>c. c \<noteq> CHR ''/'') (rev p)
      in if dropWhile (\<lambda>c. c = CHR ''/'') h = [] then rev h
         else rev (dropWhile (\<lambda>c. c = CHR ''/'') h))"

definition mem_exists :: "path \<Rightarrow> mem \<Rightarrow> bool" where
  "mem_exists d x \<longleftrightarrow> d \<in> set (dirs x) \<or> files x d \<noteq> None"

definition mem_makedirs :: "path \<Rightarrow> mem \<Rightarrow> (error + unit) \<times> mem" where
  "mem_makedirs d x =
     (if d = [] then (Inl (OSError ENOENT), x)
      else if mem_exists d x then (Inl (OSError EEXIST), x)
      else (Inr (), x\<lparr>dirs := d # dirs x\<rparr>))"

definition mem_read :: "path \<Rightarrow> mem \<Rightarrow> (error + bytes) \<times> mem" where
  "mem_read p x =
     (case files x p of
        None \<Rightarrow> (Inl (IOError ENOENT), x)
      | Some f \<Rightarrow> (Inr (content f), x))"

definition mem_write :: "path \<Rightarrow> bytes \<Rightarrow> mem \<Rightarrow> (error + unit) \<times> mem" where
  "mem_write p data x =
     (if mem_dirname p = [] \<or> mem_dirname p \<in> set (dirs x)
      then (Inr (), x\<lparr>files := (files x)(p \<mapsto> \<lparr>content = data, atime = 0, mtime = 0\<rparr>)\<rparr>)
      else (Inl (IOError ENOENT), x))"

definition mem_utime :: "path \<Rightarrow> int \<times> int \<Rightarrow> mem \<Rightarrow> (error + unit) \<times> mem" where
  "mem_utime p tms x =
     (case files x p of
        None \<Rightarrow> (Inl (OSError ENOENT), x)
      | Some f \<Rightarrow>
          (Inr (), x\<lparr>files := (files x)(p \<mapsto> f\<lparr>atime := fst tms, mtime := snd tms\<rparr>)\<rparr>))"

definition mem_remove :: "path \<Rightarrow> mem \<Rightarrow> (error + unit) \<times> mem" where
  "mem_remove p x =
     (case files x p of
        None \<Rightarrow> (Inl (OSError ENOENT), x)
      | Some f \<Rightarrow> (Inr (), x\<lparr>files := (files x)(p := None)\<rparr>))"

definition toy_mktime :: "struct_time \<Rightarrow> int" where
  "toy_mktime st =
     int (tm_sec st) + 60 * int (tm_min st) + 3600 * int (tm_hour st) + 86400 * int (tm_mday st)"

definition mem_env :: "bool \<Rightarrow> (mem, string) env" where
  "mem_env corrupt =
     \<lparr>svc_operate = mem_operate corrupt,
      retrieve_http_etag = (\<lambda>h. h),
      find_bucket_key = mem_find_bucket_key,
      guess_content_type = toy_guess,
      checksum = toy_checksum,
      quote = (\<lambda>s. s),
      os_open_read = mem_read,
      os_path_dirname = mem_dirname,
      os_path_exists = mem_exists,
      os_makedirs = mem_makedirs,
      os_open_write = mem_write,
      os_utime = mem_utime,
      os_remove = mem_remove,
      time_mktime = toy_mktime\<rparr>"

text \<open>Option bags, tasks and worlds to run the methods on.\<close>

definition no_options :: parameters where
  "no_options =
     [''acl'' \<mapsto> PNone, ''grants'' \<mapsto> PNone, ''sse'' \<mapsto> PNone, ''storage_class'' \<mapsto> PNone,
      ''website_redirect'' \<mapsto> PNone, ''guess_mime_type'' \<mapsto> PNone, ''content_type'' \<mapsto> PNone,
      ''cache_control'' \<mapsto> PNone, ''content_disposition'' \<mapsto> PNone,
      ''content_encoding'' \<mapsto> PNone, ''content_language'' \<mapsto> PNone, ''expires'' \<mapsto> PNone]"

definition a_time :: datetime where
  "a_time = \<lparr>year = 2014, month = 3, day = 1, hour = 12, minute = 0, second = 7,
             microsecond = 250000, isdst = 0\<rparr>"

definition a_task :: "string \<Rightarrow> string \<Rightarrow> string \<Rightarrow> string \<Rightarrow> parameters \<Rightarrow> fileinfo" where
  "a_task s st d dt ps =
     \<lparr>src = s, src_type = Some st, operation = Some ''move'', region = Some ''eu-west-1'',
      endpoint = Some (Endpoint ''eu-west-1''), dest = d, dest_type = Some dt,
      compare_key = None, size_bytes = None, last_update = Some a_time, parameters = ps\<rparr>"

definition a_world :: "mem world" where
  "a_world =
     \<lparr>extern =
        \<lparr>files = [''/tmp/a.json'' \<mapsto> \<lparr>content = [1, 2, 0], atime = 5, mtime = 5\<rparr>,
                  ''/tmp/empty'' \<mapsto> \<lparr>content = [], atime = 5, mtime = 5\<rparr>],
         dirs = [''/tmp''],
         objects = [''bkt/old.txt'' \<mapsto> [7, 0]]\<rparr>,
      trace = []\<rparr>"


section \<open>Lemmas on sequencing\<close>

lemma bindE_Inr_iff: "bindE m f = Inr b \<longleftrightarrow> (\<exists>a. m = Inr a \<and> f a = Inr b)"
  by (cases m) (simp_all add: bindE_def)

lemma bindE_Inl_iff: "bindE m f = Inl e \<longleftrightarrow> m = Inl e \<or> (\<exists>a. m = Inr a \<and> f a = Inl e)"
  by (cases m) (simp_all add: bindE_def)

lemma bindE_simps: "bindE (Inl e) f = Inl e" "bindE (Inr a) f = f a"
  by (simp_all add: bindE_def)

lemma pbind_Inl: "m w = (Inl e, w') \<Longrightarrow> pbind m f w = (Inl e, w')"
  by (simp add: pbind_def)

lemma pbind_Inr: "m w = (Inr a, w') \<Longrightarrow> pbind m f w = f a w'"
  by (simp add: pbind_def)

lemma lift_apply: "lift r w = (r, w)"
  by (simp add: lift_def)

lemma effect_apply:
  "f (extern w) = (r, x') \<Longrightarrow> effect ev f w = (r, \<lparr>extern = x', trace = trace w @ [ev]\<rparr>)"
  by (simp add: effect_def)

section \<open>The option pipeline keeps the keys of the request\<close>

lemma keeps_bindE: "keeps k f \<Longrightarrow> keeps k g \<Longrightarrow> keeps k (\<lambda>p. bindE (f p) g)"
  unfolding keeps_def bindE_Inr_iff by metis

lemma keeps_set_first: "k \<noteq> key \<Longrightarrow> keeps k (set_first ps opt key)"
  by (auto simp: keeps_def set_first_def bindE_Inr_iff split: if_splits)

lemma permission_to_param_range:
  "permission_to_param perm = Inr k \<Longrightarrow>
     k \<in> {''grant_read'', ''grant_full_control'', ''grant_read_acp'', ''grant_write_acp''}"
  by (auto simp: permission_to_param_def split: if_splits)

lemma grants_loop_keeps:
  "grants_loop gs p = Inr p' \<Longrightarrow>
   k \<notin> {''grant_read'', ''grant_full_control'', ''grant_read_acp'', ''grant_write_acp''} \<Longrightarrow>
   p' k = p k"
proof (induction gs arbitrary: p)
  case Nil
  then show ?case by simp
next
  case (Cons g gs)
  from Cons.prems(1) obtain perm grantee kk where
    pk: "permission_to_param perm = Inr kk" and
    rest: "grants_loop gs (p(kk \<mapsto> RStr grantee)) = Inr p'"
    by (auto simp: bindE_Inr_iff split: list.splits)
  from permission_to_param_range[OF pk] Cons.prems(2) have "kk \<noteq> k" by auto
  with Cons.IH[OF rest Cons.prems(2)] show ?case by simp
qed

lemma keeps_handle_grants:
  "k \<notin> {''grant_read'', ''grant_full_control'', ''grant_read_acp'', ''grant_write_acp''} \<Longrightarrow>
   keeps k (handle_grants ps)"
  by (auto simp: keeps_def handle_grants_def bindE_Inr_iff split: if_splits
      dest: grants_loop_keeps)

lemma keeps_handle_sse: "k \<noteq> ''server_side_encryption'' \<Longrightarrow> keeps k (handle_sse ps)"
  by (auto simp: keeps_def handle_sse_def bindE_Inr_iff split: if_splits)

lemma keeps_handle_guess: "k \<noteq> ''content_type'' \<Longrightarrow> keeps k (handle_guess E ps s)"
  by (auto simp: keeps_def handle_guess_def bindE_Inr_iff inject_content_type_def
      split: if_splits option.splits)

lemma keeps_handle_object_params:
  assumes "k \<in> request_keys"
  shows "keeps k (handle_object_params E t)"
proof -
  have "keeps k (\<lambda>params. handle_object_params E t params)"
    unfolding handle_object_params_def Let_def
    using assms
    by (intro keeps_bindE keeps_set_first keeps_handle_grants keeps_handle_sse
        keeps_handle_guess) (auto simp: request_keys_def)
  then show ?thesis by simp
qed

lemma handle_object_params_keeps:
  "handle_object_params E t p = Inr p' \<Longrightarrow> k \<in> request_keys \<Longrightarrow> p' k = p k"
  using keeps_handle_object_params[of k E t] by (simp add: keeps_def)

section \<open>\<^verbatim>\<open>upload\<close> and \<^verbatim>\<open>make_bucket\<close>\<close>

lemma upload_run:
  assumes rd: "os_open_read E (src t) (extern w) = (Inr body, x1)"
    and pipe: "handle_object_params E t (upload_params E t body) = Inr params"
    and call: "svc_operate E ''PutObject'' params x1 = (r, x2)"
  shows "upload E t w =
           (case r of Inl e \<Rightarrow> Inl e
            | Inr (response_data, http) \<Rightarrow> check_etag E (retrieve_http_etag E http) body,
            \<lparr>extern = x2, trace = trace w @ [ReadFile (src t), Call ''PutObject'' params]\<rparr>)"
  using assms
  by (cases r)
     (auto simp: upload_def read_file_def operate_def pbind_def effect_def lift_def Let_def)

lemma upload_params_lookup:
  "upload_params E t body ''body'' = (if body \<noteq> [] then Some (RBody body) else None)"
  "upload_params E t body ''endpoint'' = Some (REndpoint (endpoint t))"
  "upload_params E t body ''bucket'' = Some (RStr (fst (find_bucket_key E (dest t))))"
  "upload_params E t body ''key'' = Some (RStr (snd (find_bucket_key E (dest t))))"
  by (simp_all add: upload_params_def Let_def split_beta)

text \<open>
  Claim C6.  When \<^verbatim>\<open>upload\<close> has read the bytes of the source file and the option
  pipeline has passed, the request of the \<^verbatim>\<open>PutObject\<close> call holds the key
  \<^verbatim>\<open>body\<close> exactly when the bytes are not empty, and then with those bytes; the call
  is issued in both cases, with the endpoint, the bucket and the key.
\<close>
theorem upload_body_iff_nonempty:
  assumes "os_open_read E (src t) (extern w) = (Inr body, x1)"
    and "handle_object_params E t (upload_params E t body) = Inr params"
  shows "(''body'' \<in> dom params \<longleftrightarrow> body \<noteq> []) \<and>
         (body \<noteq> [] \<longrightarrow> params ''body'' = Some (RBody body)) \<and>
         params ''endpoint'' = Some (REndpoint (endpoint t)) \<and>
         params ''bucket'' = Some (RStr (fst (find_bucket_key E (dest t)))) \<and>
         params ''key'' = Some (RStr (snd (find_bucket_key E (dest t)))) \<and>
         trace (snd (upload E t w)) = trace w @ [ReadFile (src t), Call ''PutObject'' params]"
proof -
  have k: "params k = upload_params E t body k" if "k \<in> request_keys" for k
    using handle_object_params_keeps[OF assms(2) that] .
  have b: "params ''body'' = (if body \<noteq> [] then Some (RBody body) else None)"
    using k[of "''body''"] by (simp add: request_keys_def upload_params_lookup)
  have e: "params ''endpoint'' = Some (REndpoint (endpoint t))"
    using k[of "''endpoint''"] by (simp add: request_keys_def upload_params_lookup)
  have bk: "params ''bucket'' = Some (RStr (fst (find_bucket_key E (dest t))))"
    using k[of "''bucket''"] by (simp add: request_keys_def upload_params_lookup)
  have ky: "params ''key'' = Some (RStr (snd (find_bucket_key E (dest t))))"
    using k[of "''key''"] by (simp add: request_keys_def upload_params_lookup)
  obtain r x2 where call: "svc_operate E ''PutObject'' params x1 = (r, x2)"
    by (cases "svc_operate E ''PutObject'' params x1") auto
  have tr: "trace (snd (upload E t w)) = trace w @ [ReadFile (src t), Call ''PutObject'' params]"
    by (simp add: upload_run[OF assms call])
  from b e bk ky tr show ?thesis by (auto simp: dom_def)
qed

text \<open>
  Claim C1.  Once the \<^verbatim>\<open>PutObject\<close> call has returned, \<^verbatim>\<open>upload\<close> returns
  normally if the checksum taken from the HTTP response equals the checksum of the bytes
  read, and raises the integrity error \<open>MD5Error\<close> otherwise; and whenever
  \<^verbatim>\<open>upload\<close> returns normally, the two checksums were equal.
\<close>
theorem upload_verifies_checksum:
  "(os_open_read E (src t) (extern w) = (Inr body, x1) \<and>
    handle_object_params E t (upload_params E t body) = Inr params \<and>
    svc_operate E ''PutObject'' params x1 = (Inr (response_data, http), x2)
    \<longrightarrow> fst (upload E t w) =
          (if retrieve_http_etag E http = checksum E body then Inr () else Inl MD5Error)) \<and>
   (fst (upload E t w) = Inr ()
    \<longrightarrow> (\<exists>body x1 params response_data http x2.
           os_open_read E (src t) (extern w) = (Inr body, x1) \<and>
           handle_object_params E t (upload_params E t body) = Inr params \<and>
           svc_operate E ''PutObject'' params x1 = (Inr (response_data, http), x2) \<and>
           retrieve_http_etag E http = checksum E body))"
proof (intro conjI impI)
  assume a: "os_open_read E (src t) (extern w) = (Inr body, x1) \<and>
    handle_object_params E t (upload_params E t body) = Inr params \<and>
    svc_operate E ''PutObject'' params x1 = (Inr (response_data, http), x2)"
  then show "fst (upload E t w) =
          (if retrieve_http_etag E http = checksum E body then Inr () else Inl MD5Error)"
    by (simp add: upload_run[of E t w body x1 params "Inr (response_data, http)" x2]
        check_etag_def)
next
  assume ok: "fst (upload E t w) = Inr ()"
  obtain rb x1 where rd: "os_open_read E (src t) (extern w) = (rb, x1)"
    by (cases "os_open_read E (src t) (extern w)") auto
  from ok rd obtain body where rb: "rb = Inr body"
    by (cases rb) (auto simp: upload_def read_file_def pbind_def effect_def)
  obtain rp where pipe: "handle_object_params E t (upload_params E t body) = rp" by simp
  from ok rd rb pipe obtain params where rp: "rp = Inr params"
    by (cases rp) (auto simp: upload_def read_file_def pbind_def effect_def lift_def)
  obtain r x2 where call: "svc_operate E ''PutObject'' params x1 = (r, x2)"
    by (cases "svc_operate E ''PutObject'' params x1") auto
  note run = upload_run[OF rd[unfolded rb] pipe[unfolded rp] call]
  from ok run obtain response_data http where r: "r = Inr (response_data, http)"
    by (cases r) auto
  from ok run r have "retrieve_http_etag E http = checksum E body"
    by (auto simp: check_etag_def split: if_splits)
  with rd rb pipe rp call r show "\<exists>body x1 params response_data http x2.
           os_open_read E (src t) (extern w) = (Inr body, x1) \<and>
           handle_object_params E t (upload_params E t body) = Inr params \<and>
           svc_operate E ''PutObject'' params x1 = (Inr (response_data, http), x2) \<and>
           retrieve_http_etag E http = checksum E body"
    by blast
qed

text \<open>
  Claim C9.  The request of \<^verbatim>\<open>make_bucket\<close> holds the bucket configuration with
  the location constraint exactly when the region is not \<^verbatim>\<open>us-east-1\<close>, and the
  constraint is then the region of the task; this request is the one that
  \<^verbatim>\<open>CreateBucket\<close> is called with.
\<close>
theorem make_bucket_location_constraint:
  "(''create_bucket_configuration'' \<in> dom (make_bucket_params E t)
      \<longleftrightarrow> region t \<noteq> Some ''us-east-1'') \<and>
   (make_bucket_params E t ''create_bucket_configuration'' =
      (if region t = Some ''us-east-1'' then None
       else Some (RDict [(''LocationConstraint'', region t)]))) \<and>
   trace (snd (make_bucket E t w)) = trace w @ [Call ''CreateBucket'' (make_bucket_params E t)]"
proof -
  have 1: "make_bucket_params E t ''create_bucket_configuration'' =
      (if region t = Some ''us-east-1'' then None
       else Some (RDict [(''LocationConstraint'', region t)]))"
    by (simp add: make_bucket_params_def Let_def split_beta)
  have 2: "trace (snd (make_bucket E t w)) =
      trace w @ [Call ''CreateBucket'' (make_bucket_params E t)]"
    by (cases "svc_operate E ''CreateBucket'' (make_bucket_params E t) (extern w)")
       (auto simp: make_bucket_def operate_def pbind_def effect_def lift_def split: sum.splits)
  from 1 2 show ?thesis by (auto simp: dom_def)
qed

section \<open>The content type\<close>

lemma set_first_result:
  "set_first ps opt key p = Inr p' \<Longrightarrow>
   \<exists>v. ps opt = Some v \<and>
       (if truthy v then \<exists>x xs. v = PList (x # xs) \<and> p' = p(key \<mapsto> RStr x) else p' = p)"
  by (cases "ps opt"; cases "the (ps opt)" rule: subscript0.cases)
     (auto simp: set_first_def getitem_def bindE_simps split: if_splits)

lemma handle_guess_result:
  "handle_guess E ps s p = Inr p' \<Longrightarrow>
   \<exists>v. ps ''guess_mime_type'' = Some v \<and>
       p' = (if truthy v then inject_content_type E p s else p)"
  by (cases "ps ''guess_mime_type''")
     (auto simp: handle_guess_def getitem_def bindE_simps split: if_splits)

lemma keeps_after_content_type:
  "keeps ''content_type'' (\<lambda>params.
      bindE (set_first ps ''cache_control'' ''cache_control'' params) (\<lambda>params.
      bindE (set_first ps ''content_disposition'' ''content_disposition'' params) (\<lambda>params.
      bindE (set_first ps ''content_encoding'' ''content_encoding'' params) (\<lambda>params.
      bindE (set_first ps ''content_language'' ''content_language'' params) (\<lambda>params.
      set_first ps ''expires'' ''expires'' params)))))"
  by (intro keeps_bindE keeps_set_first) simp_all

text \<open>
  Claim C4.  With a true \<^verbatim>\<open>guess_mime_type\<close>, the pipeline injects the content type
  guessed from the source path and applies the explicit \<^verbatim>\<open>content_type\<close> to the
  result of that step.  So an explicit content type (the first element of its list) is
  what the request ends with, and without one the guessed type stays.
\<close>
theorem explicit_content_type_wins:
  assumes ok: "handle_object_params E t params = Inr params'"
    and gm: "parameters t ''guess_mime_type'' = Some gm" "truthy gm"
  shows "(\<exists>p5 p6 p7.
            handle_guess E (parameters t) (src t) p5 = Inr p6 \<and>
            p6 = inject_content_type E p5 (src t) \<and>
            set_first (parameters t) ''content_type'' ''content_type'' p6 = Inr p7 \<and>
            params' ''content_type'' = p7 ''content_type'') \<and>
         (\<forall>c cs. parameters t ''content_type'' = Some (PList (c # cs))
            \<longrightarrow> params' ''content_type'' = Some (RStr c)) \<and>
         (\<forall>v guessed. parameters t ''content_type'' = Some v \<and> \<not> truthy v \<and>
            guess_content_type E (src t) = Some guessed
            \<longrightarrow> params' ''content_type'' = Some (RStr guessed))"
proof -
  let ?ps = "parameters t"
  from ok obtain p5 p6 p7 where
    g: "handle_guess E ?ps (src t) p5 = Inr p6" and
    c: "set_first ?ps ''content_type'' ''content_type'' p6 = Inr p7" and
    rest: "bindE (set_first ?ps ''cache_control'' ''cache_control'' p7) (\<lambda>params.
      bindE (set_first ?ps ''content_disposition'' ''content_disposition'' params) (\<lambda>params.
      bindE (set_first ?ps ''content_encoding'' ''content_encoding'' params) (\<lambda>params.
      bindE (set_first ?ps ''content_language'' ''content_language'' params) (\<lambda>params.
      set_first ?ps ''expires'' ''expires'' params)))) = Inr params'"
    unfolding handle_object_params_def Let_def bindE_Inr_iff by blast
  from rest keeps_after_content_type[of ?ps]
  have last: "params' ''content_type'' = p7 ''content_type''"
    unfolding keeps_def by blast
  from handle_guess_result[OF g] gm
  have p6: "p6 = inject_content_type E p5 (src t)" by simp
  have explicit: "params' ''content_type'' = Some (RStr c)"
    if "parameters t ''content_type'' = Some (PList (c # cs))" for c cs
    using set_first_result[OF c] that last by auto
  have guessed: "params' ''content_type'' = Some (RStr guessed)"
    if "parameters t ''content_type'' = Some v" "\<not> truthy v"
       "guess_content_type E (src t) = Some guessed" for v guessed
    using set_first_result[OF c] that last p6 by (auto simp: inject_content_type_def)
  from g c last p6 explicit guessed show ?thesis by blast
qed

section \<open>The grants\<close>

lemma split1_grant:
  "split1 (CHR ''='') g =
     (if CHR ''='' \<in> set g then [grant_permission g, grant_principal g] else [g])"
  by (simp add: split1_def grant_permission_def grant_principal_def)

lemma permission_to_param_slot:
  "permission_to_param p =
     (if p \<in> {''read'', ''full'', ''readacl'', ''writeacl''} then Inr (grant_slot p)
      else Inl (ValueError ''permission must be one of: read|readacl|writeacl|full''))"
  by (simp add: permission_to_param_def grant_slot_def)

lemma grants_loop_step:
  "grants_loop (g # gs) p =
     (if grant_ok g then grants_loop gs (assign_grant g p) else Inl (grant_error g))"
  by (simp add: split1_grant permission_to_param_slot grant_ok_def grant_error_def
      assign_grant_def bindE_simps)

lemma grants_loop_char:
  "grants_loop gs p =
     (case find (\<lambda>g. \<not> grant_ok g) gs of
        None \<Rightarrow> Inr (fold assign_grant gs p)
      | Some g \<Rightarrow> Inl (grant_error g))"
proof (induction gs arbitrary: p)
  case Nil
  show ?case by simp
next
  case (Cons g gs)
  show ?case
    by (cases "grant_ok g") (simp_all add: grants_loop_step Cons.IH del: grants_loop.simps split: option.split)
qed

lemma handle_object_params_bad_grant:
  assumes acl: "parameters t ''acl'' = Some a" "a \<noteq> PBool True"
    and gr: "parameters t ''grants'' = Some (PList gs)"
    and bad: "find (\<lambda>g. \<not> grant_ok g) gs = Some g"
  shows "handle_object_params E t p = Inl (grant_error g)"
proof -
  from acl obtain p1 where 1: "set_first (parameters t) ''acl'' ''acl'' p = Inr p1"
    by (cases a rule: subscript0.cases) (auto simp: set_first_def getitem_def bindE_simps)
  from bad have "gs \<noteq> []" by auto
  with gr bad have 2: "handle_grants (parameters t) p1 = Inl (grant_error g)"
    by (simp add: handle_grants_def getitem_def bindE_simps grants_loop_char)
  show ?thesis
    unfolding handle_object_params_def Let_def by (simp add: 1 2 bindE_simps)
qed

lemma fold_assign_grant_lookup:
  "fold assign_grant gs p k =
     (case find (\<lambda>g. grant_slot (grant_permission g) = k) (rev gs) of
        None \<Rightarrow> p k
      | Some g \<Rightarrow> Some (RStr (grant_principal g)))"
  by (induction gs rule: rev_induct) (simp_all add: assign_grant_def)

lemma grant_slot_inj:
  "p \<in> {''read'', ''full'', ''readacl'', ''writeacl''} \<Longrightarrow>
   q \<in> {''read'', ''full'', ''readacl'', ''writeacl''} \<Longrightarrow>
   grant_slot p = grant_slot q \<Longrightarrow> p = q"
  by (auto simp: grant_slot_def split: if_splits)

lemma find_SomeD: "find P xs = Some x \<Longrightarrow> x \<in> set xs \<and> P x"
  by (induction xs) (auto split: if_splits)

lemma fold_assign_grant_entry:
  assumes ok: "\<forall>g \<in> set gs. grant_ok g"
    and g: "g \<in> set gs"
    and same: "\<forall>g' \<in> set gs. grant_permission g' = grant_permission g
                 \<longrightarrow> grant_principal g' = grant_principal g"
  shows "fold assign_grant gs p (grant_slot (grant_permission g)) = Some (RStr (grant_principal g))"
proof -
  let ?P = "\<lambda>g'. grant_slot (grant_permission g') = grant_slot (grant_permission g)"
  from g have "\<exists>x. x \<in> set (rev gs) \<and> ?P x" by auto
  then obtain g' where f: "find ?P (rev gs) = Some g'"
    by (cases "find ?P (rev gs)") (auto simp: find_None_iff)
  from find_SomeD[OF f] have in_gs: "g' \<in> set gs" and slot: "?P g'"
    by simp_all
  from ok g in_gs have "grant_permission g \<in> {''read'', ''full'', ''readacl'', ''writeacl''}"
    and "grant_permission g' \<in> {''read'', ''full'', ''readacl'', ''writeacl''}"
    by (auto simp: grant_ok_def)
  with slot have "grant_permission g' = grant_permission g"
    using grant_slot_inj[of "grant_permission g'" "grant_permission g"] by blast
  with same in_gs have "grant_principal g' = grant_principal g" by blast
  with f show ?thesis by (simp add: fold_assign_grant_lookup)
qed

lemma handle_grants_list:
  "ps ''grants'' = Some (PList gs) \<Longrightarrow> handle_grants ps p = grants_loop gs p"
  by (cases gs) (simp_all add: handle_grants_def getitem_def bindE_simps)

lemma keeps_after_grants:
  assumes "k \<in> {''grant_read'', ''grant_full_control'', ''grant_read_acp'', ''grant_write_acp''}"
  shows "keeps k (\<lambda>params.
      bindE (handle_sse ps params) (\<lambda>params.
      bindE (set_first ps ''storage_class'' ''storage_class'' params) (\<lambda>params.
      bindE (set_first ps ''website_redirect'' ''website_redirect_location'' params) (\<lambda>params.
      bindE (handle_guess E ps s params) (\<lambda>params.
      bindE (set_first ps ''content_type'' ''content_type'' params) (\<lambda>params.
      bindE (set_first ps ''cache_control'' ''cache_control'' params) (\<lambda>params.
      bindE (set_first ps ''content_disposition'' ''content_disposition'' params) (\<lambda>params.
      bindE (set_first ps ''content_encoding'' ''content_encoding'' params) (\<lambda>params.
      bindE (set_first ps ''content_language'' ''content_language'' params) (\<lambda>params.
      set_first ps ''expires'' ''expires'' params))))))))))"
  using assms
  by (intro keeps_bindE keeps_set_first keeps_handle_sse keeps_handle_guess) auto

lemma handle_object_params_grants:
  assumes gr: "parameters t ''grants'' = Some (PList gs)"
    and ok: "handle_object_params E t params = Inr params'"
  shows "(\<forall>g \<in> set gs. grant_ok g)"
    and "k \<in> {''grant_read'', ''grant_full_control'', ''grant_read_acp'', ''grant_write_acp''}
         \<Longrightarrow> params' k = fold assign_grant gs params k"
proof -
  let ?ps = "parameters t"
  from ok obtain p1 p2 where
    a: "set_first ?ps ''acl'' ''acl'' params = Inr p1" and
    g: "handle_grants ?ps p1 = Inr p2" and
    rest: "bindE (handle_sse ?ps p2) (\<lambda>params.
      bindE (set_first ?ps ''storage_class'' ''storage_class'' params) (\<lambda>params.
      bindE (set_first ?ps ''website_redirect'' ''website_redirect_location'' params) (\<lambda>params.
      bindE (handle_guess E ?ps (src t) params) (\<lambda>params.
      bindE (set_first ?ps ''content_type'' ''content_type'' params) (\<lambda>params.
      bindE (set_first ?ps ''cache_control'' ''cache_control'' params) (\<lambda>params.
      bindE (set_first ?ps ''content_disposition'' ''content_disposition'' params) (\<lambda>params.
      bindE (set_first ?ps ''content_encoding'' ''content_encoding'' params) (\<lambda>params.
      bindE (set_first ?ps ''content_language'' ''content_language'' params) (\<lambda>params.
      set_first ?ps ''expires'' ''expires'' params))))))))) = Inr params'"
    unfolding handle_object_params_def Let_def bindE_Inr_iff by blast
  from g have loop: "grants_loop gs p1 = Inr p2"
    using gr by (simp add: handle_grants_list)
  then have none: "find (\<lambda>g. \<not> grant_ok g) gs = None"
    and p2: "p2 = fold assign_grant gs p1"
    by (auto simp: grants_loop_char split: option.splits)
  from none show "\<forall>g \<in> set gs. grant_ok g"
    by (simp add: find_None_iff)
  assume k: "k \<in> {''grant_read'', ''grant_full_control'', ''grant_read_acp'', ''grant_write_acp''}"
  from rest keeps_after_grants[OF k, of ?ps E "src t"] have "params' k = p2 k"
    unfolding keeps_def by blast
  moreover from k have "k \<noteq> ''acl''" by auto
  with a keeps_set_first[of k "''acl''" ?ps "''acl''"] have "p1 k = params k"
    unfolding keeps_def by blast
  then have "fold assign_grant gs p1 k = fold assign_grant gs params k"
    by (simp add: fold_assign_grant_lookup split: option.split)
  ultimately show "params' k = fold assign_grant gs params k"
    using p2 by simp
qed

lemma copy_run:
  assumes "handle_object_params E t (copy_params E t) = Inr params'"
  shows "trace (snd (copy E t w)) = trace w @ [Call ''CopyObject'' params']"
  using assms
  by (cases "svc_operate E ''CopyObject'' params' (extern w)")
     (auto simp: copy_def operate_def pbind_def effect_def lift_def split: sum.splits)

lemma create_multipart_upload_run:
  assumes "handle_object_params E t (object_params E t (dest t)) = Inr params'"
  shows "trace (snd (create_multipart_upload E t w)) =
           trace w @ [Call ''CreateMultipartUpload'' params']"
  using assms
  by (cases "svc_operate E ''CreateMultipartUpload'' params' (extern w)")
     (auto simp: create_multipart_upload_def operate_def pbind_def effect_def lift_def
           split: sum.splits option.splits)

lemma upload_trace:
  assumes "os_open_read E (src t) (extern w) = (Inr body, x1)"
    and "handle_object_params E t (upload_params E t body) = Inr params'"
  shows "trace (snd (upload E t w)) = trace w @ [ReadFile (src t), Call ''PutObject'' params']"
proof -
  obtain r x2 where call: "svc_operate E ''PutObject'' params' x1 = (r, x2)"
    by (cases "svc_operate E ''PutObject'' params' x1") auto
  show ?thesis by (simp add: upload_run[OF assms call])
qed

text \<open>
  Claim C5.  The loop over the grants assigns, entry by entry, the principal after the
  first \<open>=\<close> to the slot of the permission before it, as long as every entry has an
  \<open>=\<close> and one of the four permissions; the first entry that has not makes it raise
  a \<^verbatim>\<open>ValueError\<close>.  In that case \<^verbatim>\<open>copy\<close>, \<^verbatim>\<open>create_multipart_upload\<close> and
  \<^verbatim>\<open>upload\<close> raise without having issued a remote call.  When the option pipeline
  returns, every configured grant was well formed and the four grant slots of its result
  hold what the assignments give: an entry whose permission no other entry repeats with
  another principal has its principal in its slot.  That result is the request that
  \<^verbatim>\<open>copy\<close>, \<^verbatim>\<open>create_multipart_upload\<close> and \<^verbatim>\<open>upload\<close> call the store with.
\<close>
theorem grants_mapped_or_rejected:
  "grants_loop gs params =
     (case find (\<lambda>g. \<not> grant_ok g) gs of
        None \<Rightarrow> Inr (fold assign_grant gs params)
      | Some g \<Rightarrow> Inl (grant_error g)) \<and>
   (parameters t ''acl'' = Some a \<and> a \<noteq> PBool True \<and>
    parameters t ''grants'' = Some (PList gs) \<and> find (\<lambda>g. \<not> grant_ok g) gs = Some g
    \<longrightarrow> handle_object_params E t params = Inl (grant_error g) \<and>
        (\<exists>msg. grant_error g = ValueError msg) \<and>
        copy E t w = (Inl (grant_error g), w) \<and>
        create_multipart_upload E t w = (Inl (grant_error g), w) \<and>
        (\<exists>e. fst (upload E t w) = Inl e) \<and>
        filter is_call (trace (snd (upload E t w))) = filter is_call (trace w)) \<and>
   ((\<forall>g \<in> set gs. grant_ok g)
    \<longrightarrow> grants_loop gs params = Inr (fold assign_grant gs params)) \<and>
   ((\<exists>g \<in> set gs. \<not> grant_ok g)
    \<longrightarrow> (\<exists>msg. grants_loop gs params = Inl (ValueError msg))) \<and>
   (parameters t ''grants'' = Some (PList gs) \<and>
    handle_object_params E t params = Inr params'
    \<longrightarrow> (\<forall>g \<in> set gs. grant_ok g) \<and>
        (k \<in> {''grant_read'', ''grant_full_control'', ''grant_read_acp'', ''grant_write_acp''}
         \<longrightarrow> params' k = fold assign_grant gs params k) \<and>
        (entry \<in> set gs \<and>
         (\<forall>g' \<in> set gs. grant_permission g' = grant_permission entry
            \<longrightarrow> grant_principal g' = grant_principal entry)
         \<longrightarrow> params' (grant_slot (grant_permission entry))
               = Some (RStr (grant_principal entry)))) \<and>
   (handle_object_params E t (copy_params E t) = Inr pc
    \<longrightarrow> trace (snd (copy E t w)) = trace w @ [Call ''CopyObject'' pc]) \<and>
   (handle_object_params E t (object_params E t (dest t)) = Inr pm
    \<longrightarrow> trace (snd (create_multipart_upload E t w))
          = trace w @ [Call ''CreateMultipartUpload'' pm]) \<and>
   (os_open_read E (src t) (extern w) = (Inr body, x1) \<and>
    handle_object_params E t (upload_params E t body) = Inr pu
    \<longrightarrow> trace (snd (upload E t w)) = trace w @ [ReadFile (src t), Call ''PutObject'' pu])"
proof (intro conjI impI)
  show "grants_loop gs params =
     (case find (\<lambda>g. \<not> grant_ok g) gs of
        None \<Rightarrow> Inr (fold assign_grant gs params)
      | Some g \<Rightarrow> Inl (grant_error g))"
    by (rule grants_loop_char)
next
  assume h: "parameters t ''acl'' = Some a \<and> a \<noteq> PBool True \<and>
    parameters t ''grants'' = Some (PList gs) \<and> find (\<lambda>g. \<not> grant_ok g) gs = Some g"
  then have bad: "handle_object_params E t p = Inl (grant_error g)" for p
    using handle_object_params_bad_grant[of t a gs g E p] by simp
  show "handle_object_params E t params = Inl (grant_error g)" by (rule bad)
  show "\<exists>msg. grant_error g = ValueError msg" by (simp add: grant_error_def)
  show "copy E t w = (Inl (grant_error g), w)"
    by (simp add: copy_def pbind_def lift_def bad)
  show "create_multipart_upload E t w = (Inl (grant_error g), w)"
    by (simp add: create_multipart_upload_def pbind_def lift_def bad)
  obtain rb x1 where rd: "os_open_read E (src t) (extern w) = (rb, x1)"
    by (cases "os_open_read E (src t) (extern w)") auto
  have up: "upload E t w =
      (case rb of Inl e \<Rightarrow> Inl e | Inr body \<Rightarrow> Inl (grant_error g),
       \<lparr>extern = x1, trace = trace w @ [ReadFile (src t)]\<rparr>)"
    using rd by (cases rb) (simp_all add: upload_def read_file_def pbind_def effect_def lift_def bad)
  show "\<exists>e. fst (upload E t w) = Inl e"
    unfolding up by (cases rb) simp_all
  show "filter is_call (trace (snd (upload E t w))) = filter is_call (trace w)"
    unfolding up by simp
next
  assume "\<forall>g \<in> set gs. grant_ok g"
  then have "find (\<lambda>g. \<not> grant_ok g) gs = None"
    by (simp add: find_None_iff)
  then show "grants_loop gs params = Inr (fold assign_grant gs params)"
    by (simp add: grants_loop_char)
next
  assume "\<exists>g \<in> set gs. \<not> grant_ok g"
  then obtain g' where "find (\<lambda>g. \<not> grant_ok g) gs = Some g'"
    by (cases "find (\<lambda>g. \<not> grant_ok g) gs") (auto simp: find_None_iff)
  then show "\<exists>msg. grants_loop gs params = Inl (ValueError msg)"
    by (simp add: grants_loop_char grant_error_def)
next
  assume h: "parameters t ''grants'' = Some (PList gs) \<and>
    handle_object_params E t params = Inr params'"
  then have gr: "parameters t ''grants'' = Some (PList gs)"
    and ok: "handle_object_params E t params = Inr params'"
    by simp_all
  show allok: "\<forall>g \<in> set gs. grant_ok g"
    by (rule handle_object_params_grants(1)[OF gr ok])
  {
    assume "k \<in> {''grant_read'', ''grant_full_control'', ''grant_read_acp'', ''grant_write_acp''}"
    then show "params' k = fold assign_grant gs params k"
      by (rule handle_object_params_grants(2)[OF gr ok])
  }
  assume e: "entry \<in> set gs \<and>
         (\<forall>g' \<in> set gs. grant_permission g' = grant_permission entry
            \<longrightarrow> grant_principal g' = grant_principal entry)"
  with allok have "grant_ok entry" by blast
  then have "grant_permission entry \<in> {''read'', ''full'', ''readacl'', ''writeacl''}"
    by (simp add: grant_ok_def)
  then have "grant_slot (grant_permission entry)
      \<in> {''grant_read'', ''grant_full_control'', ''grant_read_acp'', ''grant_write_acp''}"
    by (auto simp: grant_slot_def)
  from handle_object_params_grants(2)[OF gr ok this]
  have "params' (grant_slot (grant_permission entry))
      = fold assign_grant gs params (grant_slot (grant_permission entry))" .
  also from e have "\<dots> = Some (RStr (grant_principal entry))"
    by (intro fold_assign_grant_entry allok) blast+
  finally show "params' (grant_slot (grant_permission entry))
      = Some (RStr (grant_principal entry))" .
next
  assume "handle_object_params E t (copy_params E t) = Inr pc"
  then show "trace (snd (copy E t w)) = trace w @ [Call ''CopyObject'' pc]"
    by (rule copy_run)
next
  assume "handle_object_params E t (object_params E t (dest t)) = Inr pm"
  then show "trace (snd (create_multipart_upload E t w))
          = trace w @ [Call ''CreateMultipartUpload'' pm]"
    by (rule create_multipart_upload_run)
next
  assume "os_open_read E (src t) (extern w) = (Inr body, x1) \<and>
    handle_object_params E t (upload_params E t body) = Inr pu"
  then show "trace (snd (upload E t w)) = trace w @ [ReadFile (src t), Call ''PutObject'' pu]"
    using upload_trace[of E t w body x1 pu] by blast
qed

lemmas pipeline_defs =
  handle_object_params_def set_first_def handle_grants_def handle_sse_def handle_guess_def
  inject_content_type_def getitem_def bindE_def Let_def

lemmas mem_defs =
  mem_env_def mem_operate_def mem_find_bucket_key_def mem_read_def mem_write_def
  mem_utime_def mem_remove_def mem_makedirs_def mem_exists_def mem_dirname_def
  mem_etag_def toy_checksum_def toy_guess_def toy_mktime_def quoted_def req_str_def
  object_name_def no_data_def a_task_def a_world_def a_time_def no_options_def

theorem make_bucket_location_constraint_witness:
  "make_bucket_params (mem_env False) (a_task ''bkt'' ''s3'' [] [] no_options)
     ''create_bucket_configuration'' = Some (RDict [(''LocationConstraint'', Some ''eu-west-1'')]) \<and>
   make_bucket_params (mem_env False)
     ((a_task ''bkt'' ''s3'' [] [] no_options)\<lparr>region := Some ''us-east-1''\<rparr>)
     ''create_bucket_configuration'' = None"
  using make_bucket_location_constraint
          [of "mem_env False" "a_task ''bkt'' ''s3'' [] [] no_options" a_world]
        make_bucket_location_constraint
          [of "mem_env False"
              "(a_task ''bkt'' ''s3'' [] [] no_options)\<lparr>region := Some ''us-east-1''\<rparr>" a_world]
  by (simp add: a_task_def)

theorem upload_body_iff_nonempty_witness:
  "os_open_read (mem_env False) ''/tmp/a.json'' (extern a_world) = (Inr [1, 2, 0], extern a_world) \<and>
   handle_object_params (mem_env False)
     (a_task ''/tmp/a.json'' ''local'' ''bkt/a.json'' ''s3'' no_options)
     (upload_params (mem_env False)
        (a_task ''/tmp/a.json'' ''local'' ''bkt/a.json'' ''s3'' no_options) [1, 2, 0])
   = Inr (upload_params (mem_env False)
        (a_task ''/tmp/a.json'' ''local'' ''bkt/a.json'' ''s3'' no_options) [1, 2, 0]) \<and>
   upload_params (mem_env False)
        (a_task ''/tmp/a.json'' ''local'' ''bkt/a.json'' ''s3'' no_options) [1, 2, 0] ''body''
   = Some (RBody [1, 2, 0]) \<and>
   os_open_read (mem_env False) ''/tmp/empty'' (extern a_world) = (Inr [], extern a_world) \<and>
   handle_object_params (mem_env False)
     (a_task ''/tmp/empty'' ''local'' ''bkt/e'' ''s3'' no_options)
     (upload_params (mem_env False)
        (a_task ''/tmp/empty'' ''local'' ''bkt/e'' ''s3'' no_options) [])
   = Inr (upload_params (mem_env False)
        (a_task ''/tmp/empty'' ''local'' ''bkt/e'' ''s3'' no_options) []) \<and>
   ''body'' \<notin> dom (upload_params (mem_env False)
        (a_task ''/tmp/empty'' ''local'' ''bkt/e'' ''s3'' no_options) []) \<and>
   trace (snd (upload (mem_env False)
        (a_task ''/tmp/empty'' ''local'' ''bkt/e'' ''s3'' no_options) a_world))
   = [ReadFile ''/tmp/empty'',
      Call ''PutObject'' (upload_params (mem_env False)
        (a_task ''/tmp/empty'' ''local'' ''bkt/e'' ''s3'' no_options) [])]"
proof -
  let ?E = "mem_env False"
  let ?t = "a_task ''/tmp/a.json'' ''local'' ''bkt/a.json'' ''s3'' no_options"
  let ?u = "a_task ''/tmp/empty'' ''local'' ''bkt/e'' ''s3'' no_options"
  have r1: "os_open_read ?E (src ?t) (extern a_world) = (Inr [1, 2, 0], extern a_world)"
    by (simp add: mem_defs)
  have p1: "handle_object_params ?E ?t (upload_params ?E ?t [1, 2, 0])
            = Inr (upload_params ?E ?t [1, 2, 0])"
    by (simp add: pipeline_defs no_options_def a_task_def)
  have r2: "os_open_read ?E (src ?u) (extern a_world) = (Inr [], extern a_world)"
    by (simp add: mem_defs)
  have p2: "handle_object_params ?E ?u (upload_params ?E ?u []) = Inr (upload_params ?E ?u [])"
    by (simp add: pipeline_defs no_options_def a_task_def)
  have s: "src ?t = ''/tmp/a.json''" "src ?u = ''/tmp/empty''" "trace a_world = []"
    by (simp_all add: a_task_def a_world_def)
  from upload_body_iff_nonempty[OF r1 p1] upload_body_iff_nonempty[OF r2 p2] r1 p1 r2 p2
  show ?thesis unfolding s by simp
qed

theorem upload_verifies_checksum_witness:
  "fst (upload (mem_env False)
          (a_task ''/tmp/a.json'' ''local'' ''bkt/a.json'' ''s3'' no_options) a_world) = Inr () \<and>
   fst (upload (mem_env True)
          (a_task ''/tmp/a.json'' ''local'' ''bkt/a.json'' ''s3'' no_options) a_world) = Inl MD5Error \<and>
   (\<exists>body x1 params response_data http x2.
      os_open_read (mem_env False) ''/tmp/a.json'' (extern a_world) = (Inr body, x1) \<and>
      svc_operate (mem_env False) ''PutObject'' params x1 = (Inr (response_data, http), x2) \<and>
      retrieve_http_etag (mem_env False) http = checksum (mem_env False) body)"
proof -
  let ?t = "a_task ''/tmp/a.json'' ''local'' ''bkt/a.json'' ''s3'' no_options"
  let ?x = "(extern a_world)\<lparr>objects := (objects (extern a_world))(''bkt/a.json'' \<mapsto> [1, 2, 0])\<rparr>"
  have r: "os_open_read (mem_env c) (src ?t) (extern a_world) = (Inr [1, 2, 0], extern a_world)"
    for c by (simp add: mem_defs)
  have p: "handle_object_params (mem_env c) ?t (upload_params (mem_env c) ?t [1, 2, 0])
            = Inr (upload_params (mem_env c) ?t [1, 2, 0])" for c
    by (simp add: pipeline_defs no_options_def a_task_def)
  have c: "svc_operate (mem_env c) ''PutObject'' (upload_params (mem_env c) ?t [1, 2, 0])
             (extern a_world)
           = (Inr (no_data\<lparr>ETag := Some (quoted (mem_etag c [1, 2, 0]))\<rparr>, mem_etag c [1, 2, 0]), ?x)"
    for c
    by (simp add: mem_env_def mem_operate_def upload_params_def mem_find_bucket_key_def
        a_task_def object_name_def req_str_def Let_def)
  have e: "retrieve_http_etag (mem_env False) (mem_etag False [1, 2, 0])
             = checksum (mem_env False) [1, 2, 0]"
          "retrieve_http_etag (mem_env True) (mem_etag True [1, 2, 0])
             \<noteq> checksum (mem_env True) [1, 2, 0]"
    by (simp_all add: mem_env_def mem_etag_def toy_checksum_def)
  from upload_verifies_checksum[of "mem_env False" ?t a_world "[1, 2, 0]" "extern a_world"
         "upload_params (mem_env False) ?t [1, 2, 0]" _ "mem_etag False [1, 2, 0]" ?x]
       upload_verifies_checksum[of "mem_env True" ?t a_world "[1, 2, 0]" "extern a_world"
         "upload_params (mem_env True) ?t [1, 2, 0]" _ "mem_etag True [1, 2, 0]" ?x]
       r p c e
  have ok: "fst (upload (mem_env False) ?t a_world) = Inr ()"
    and bad: "fst (upload (mem_env True) ?t a_world) = Inl MD5Error"
    by simp_all
  have s: "src ?t = ''/tmp/a.json''" by (simp add: a_task_def)
  from upload_verifies_checksum[of "mem_env False" ?t a_world, THEN conjunct2, THEN mp, OF ok]
  have "\<exists>body x1 params response_data http x2.
      os_open_read (mem_env False) ''/tmp/a.json'' (extern a_world) = (Inr body, x1) \<and>
      svc_operate (mem_env False) ''PutObject'' params x1 = (Inr (response_data, http), x2) \<and>
      retrieve_http_etag (mem_env False) http = checksum (mem_env False) body"
    unfolding s by blast
  with ok bad show ?thesis by blast
qed

section \<open>\<^verbatim>\<open>save_file\<close> and \<^verbatim>\<open>download\<close>\<close>

lemma save_file_checked:
  assumes "Body response_data = Some data" "ETag response_data = Some e"
    and "strip_ends e = checksum E data"
  shows "save_file E filename response_data lu w =
           pbind (try_pass (\<lambda>w. if \<not> os_path_exists E (os_path_dirname E filename) (extern w)
                                 then effect (MakeDirs (os_path_dirname E filename))
                                        (os_makedirs E (os_path_dirname E filename)) w
                                 else (Inr (), w)))
             (\<lambda>_. write_and_stamp E filename data lu) w"
  using assms
  by (simp add: save_file_def write_and_stamp_def pbind_def lift_def check_etag_def Let_def)

lemma save_file_dir_exists:
  assumes "Body response_data = Some data" "ETag response_data = Some e"
    and "strip_ends e = checksum E data"
    and "os_path_exists E (os_path_dirname E filename) (extern w)"
  shows "save_file E filename response_data lu w = write_and_stamp E filename data lu w"
  unfolding save_file_checked[OF assms(1-3)] using assms(4)
  by (simp add: pbind_def try_pass_def)

lemma save_file_dir_missing:
  assumes "Body response_data = Some data" "ETag response_data = Some e"
    and "strip_ends e = checksum E data"
    and "\<not> os_path_exists E (os_path_dirname E filename) (extern w)"
    and "os_makedirs E (os_path_dirname E filename) (extern w) = (res, x1)"
  shows "save_file E filename response_data lu w =
           write_and_stamp E filename data lu
             \<lparr>extern = x1, trace = trace w @ [MakeDirs (os_path_dirname E filename)]\<rparr>"
  unfolding save_file_checked[OF assms(1-3)] using assms(4,5)
  by (simp add: pbind_def try_pass_def effect_def)

lemma timetuple_whole_seconds: "timetuple (lu\<lparr>microsecond := m\<rparr>) = timetuple lu"
  by (simp add: timetuple_def)

lemma write_and_stamp_success:
  assumes "fst (write_and_stamp E filename data lu w) = Inr ()"
  shows "\<exists>l x2. lu = Some l \<and>
           os_open_write E filename data (extern w) = (Inr (), x2) \<and>
           os_utime E filename (seconds_of E l, seconds_of E l) x2 =
             (Inr (), extern (snd (write_and_stamp E filename data lu w))) \<and>
           trace (snd (write_and_stamp E filename data lu w)) =
             trace w @ [WriteFile filename data,
                        Utime filename (seconds_of E l) (seconds_of E l)]"
proof -
  obtain rw x2 where wr: "os_open_write E filename data (extern w) = (rw, x2)"
    by (cases "os_open_write E filename data (extern w)") auto
  from assms wr have rw: "rw = Inr ()"
    by (cases rw) (auto simp: write_and_stamp_def pbind_def effect_def)
  from assms wr rw obtain l where lu: "lu = Some l"
    by (cases lu) (auto simp: write_and_stamp_def pbind_def effect_def lift_def)
  let ?ts = "seconds_of E l"
  obtain ru x3 where ut: "os_utime E filename (?ts, ?ts) x2 = (ru, x3)"
    by (cases "os_utime E filename (?ts, ?ts) x2") auto
  have run: "write_and_stamp E filename data lu w =
      (ru, \<lparr>extern = x3, trace = trace w @ [WriteFile filename data, Utime filename ?ts ?ts]\<rparr>)"
    using wr rw lu ut
    by (simp add: write_and_stamp_def pbind_def effect_def lift_def Let_def seconds_of_def
        timetuple_whole_seconds)
  from assms run have "ru = Inr ()" by simp
  with wr rw lu ut run show ?thesis by simp
qed

lemma save_file_success:
  assumes ok: "fst (save_file E filename response_data lu w) = Inr ()"
  shows "\<exists>data l x1 x2 pre.
           Body response_data = Some data \<and> lu = Some l \<and>
           os_open_write E filename data x1 = (Inr (), x2) \<and>
           os_utime E filename (seconds_of E l, seconds_of E l) x2 =
             (Inr (), extern (snd (save_file E filename response_data lu w))) \<and>
           ((pre = [] \<and> x1 = extern w) \<or>
            (pre = [MakeDirs (os_path_dirname E filename)] \<and>
             (\<exists>res. os_makedirs E (os_path_dirname E filename) (extern w) = (res, x1)))) \<and>
           trace (snd (save_file E filename response_data lu w)) =
             trace w @ pre @ [WriteFile filename data,
                              Utime filename (seconds_of E l) (seconds_of E l)]"
proof -
  from ok obtain data where b: "Body response_data = Some data"
    by (cases "Body response_data") (auto simp: save_file_def pbind_def lift_def)
  from ok b obtain e where e: "ETag response_data = Some e"
    by (cases "ETag response_data") (auto simp: save_file_def pbind_def lift_def)
  from ok b e have c: "strip_ends e = checksum E data"
    by (auto simp: save_file_def pbind_def lift_def check_etag_def split: if_splits)
  let ?d = "os_path_dirname E filename"
  show ?thesis
  proof (cases "os_path_exists E ?d (extern w)")
    case True
    note eq = save_file_dir_exists[OF b e c True, of lu]
    from write_and_stamp_success[OF ok[unfolded eq]] b
    obtain l x2 where
      "lu = Some l"
      "os_open_write E filename data (extern w) = (Inr (), x2)"
      "os_utime E filename (seconds_of E l, seconds_of E l) x2 =
         (Inr (), extern (snd (save_file E filename response_data lu w)))"
      "trace (snd (save_file E filename response_data lu w)) =
         trace w @ [] @ [WriteFile filename data,
                         Utime filename (seconds_of E l) (seconds_of E l)]"
      unfolding eq by auto
    with b show ?thesis by blast
  next
    case False
    obtain res x1 where mk: "os_makedirs E ?d (extern w) = (res, x1)"
      by (cases "os_makedirs E ?d (extern w)") auto
    note eq = save_file_dir_missing[OF b e c False mk, of lu]
    from write_and_stamp_success[OF ok[unfolded eq]] b
    obtain l x2 where
      "lu = Some l"
      "os_open_write E filename data x1 = (Inr (), x2)"
      "os_utime E filename (seconds_of E l, seconds_of E l) x2 =
         (Inr (), extern (snd (save_file E filename response_data lu w)))"
      "trace (snd (save_file E filename response_data lu w)) =
         trace w @ [MakeDirs ?d] @ [WriteFile filename data,
                                    Utime filename (seconds_of E l) (seconds_of E l)]"
      unfolding eq by auto
    with b mk show ?thesis by blast
  qed
qed

text \<open>
  Claim C8.  When \<^verbatim>\<open>download\<close> returns normally, its last two calls were the write
  of the whole body to the destination and, on the state that this write left, the
  \<^verbatim>\<open>utime\<close> call that sets the access time and the modification time to the same
  number: the last-modified time of the task in whole seconds.
\<close>
theorem download_sets_both_times:
  assumes ok: "fst (download E t w) = Inr ()"
  shows "\<exists>response_data http x0 data l x1 x2 pre.
           svc_operate E ''GetObject'' (object_params E t (src t)) (extern w) =
             (Inr (response_data, http), x0) \<and>
           Body response_data = Some data \<and> last_update t = Some l \<and>
           os_open_write E (dest t) data x1 = (Inr (), x2) \<and>
           os_utime E (dest t) (seconds_of E l, seconds_of E l) x2 =
             (Inr (), extern (snd (download E t w))) \<and>
           ((pre = [] \<and> x1 = x0) \<or>
            (pre = [MakeDirs (os_path_dirname E (dest t))] \<and>
             (\<exists>res. os_makedirs E (os_path_dirname E (dest t)) x0 = (res, x1)))) \<and>
           trace (snd (download E t w)) =
             trace w @ [Call ''GetObject'' (object_params E t (src t))] @ pre @
               [WriteFile (dest t) data, Utime (dest t) (seconds_of E l) (seconds_of E l)]"
proof -
  let ?p = "object_params E t (src t)"
  obtain r x0 where call: "svc_operate E ''GetObject'' ?p (extern w) = (r, x0)"
    by (cases "svc_operate E ''GetObject'' ?p (extern w)") auto
  from ok call obtain response_data http where r: "r = Inr (response_data, http)"
    by (cases r) (auto simp: download_def operate_def pbind_def effect_def)
  let ?w0 = "\<lparr>extern = x0, trace = trace w @ [Call ''GetObject'' ?p]\<rparr>"
  have eq: "download E t w = save_file E (dest t) response_data (last_update t) ?w0"
    using call r by (simp add: download_def operate_def pbind_def effect_def)
  from save_file_success[OF ok[unfolded eq]] call r
  show ?thesis unfolding eq by (simp; blast)
qed

text \<open>
  Claim C10.  When the checksum reported with the response differs from the checksum of
  the body, \<^verbatim>\<open>save_file\<close> raises the integrity error and has called nothing: the
  outside world and the trace are the ones it started with.
\<close>
theorem save_file_mismatch_leaves_world:
  assumes "Body response_data = Some data" "ETag response_data = Some e"
    and "strip_ends e \<noteq> checksum E data"
  shows "save_file E filename response_data lu w = (Inl MD5Error, w) \<and>
         extern (snd (save_file E filename response_data lu w)) = extern w \<and>
         trace (snd (save_file E filename response_data lu w)) = trace w"
  using assms by (simp add: save_file_def pbind_def lift_def check_etag_def)

section \<open>What the transfers leave in the trace\<close>

lemma quiet_lift: "quiet P (lift r)"
  by (simp add: quiet_def lift_def)

lemma quiet_effect: "\<not> P ev \<Longrightarrow> quiet P (effect ev f)"
  by (simp add: quiet_def effect_def split_beta)

lemma quiet_pbind: "quiet P m \<Longrightarrow> (\<And>a. quiet P (f a)) \<Longrightarrow> quiet P (pbind m f)"
  unfolding quiet_def pbind_def
  by (auto split: prod.splits sum.splits) (metis snd_conv)+

lemma quiet_try_pass: "quiet P m \<Longrightarrow> quiet P (try_pass m)"
  by (simp add: quiet_def try_pass_def split_beta)

lemma quiet_case_prod: "(\<And>a b. quiet P (f a b)) \<Longrightarrow> quiet P (case_prod f x)"
  by (cases x) simp

lemma quiet_operate: "\<not> P (Call name params) \<Longrightarrow> quiet P (operate E name params)"
  by (simp add: operate_def quiet_effect)

lemma quiet_if_world:
  "quiet P m \<Longrightarrow> quiet P (\<lambda>w. if c w then m w else (Inr (), w))"
  by (simp add: quiet_def)

lemma quiet_save_file:
  assumes "\<And>p. \<not> P (MakeDirs p)" "\<And>p b. \<not> P (WriteFile p b)" "\<And>p a m. \<not> P (Utime p a m)"
  shows "quiet P (save_file E filename response_data lu)"
  unfolding save_file_def Let_def
  by (intro quiet_pbind quiet_lift quiet_try_pass quiet_if_world quiet_effect assms)

lemma quiet_upload: "quiet is_delete (upload E t)"
  unfolding upload_def read_file_def Let_def
  by (intro quiet_pbind quiet_lift quiet_case_prod quiet_operate quiet_effect) simp_all

lemma quiet_copy: "quiet is_delete (copy E t)"
  unfolding copy_def
  by (intro quiet_pbind quiet_lift quiet_operate) simp_all

lemma quiet_download: "quiet is_delete (download E t)"
  unfolding download_def
  by (intro quiet_pbind quiet_case_prod quiet_operate quiet_save_file) simp_all

lemma quiet_move_transfer: "quiet is_delete (move_transfer E t)"
  unfolding move_transfer_def
  by (simp add: quiet_upload quiet_copy quiet_download quiet_lift)

text \<open>
  Claim C2.  If the transfer step of \<^verbatim>\<open>move\<close> raises, whichever of \<^verbatim>\<open>upload\<close>,
  \<^verbatim>\<open>copy\<close> and \<^verbatim>\<open>download\<close> the kinds of source and destination select, then
  \<^verbatim>\<open>move\<close> raises the same error in the world that the transfer left, and neither
  \<^verbatim>\<open>os.remove\<close> nor \<^verbatim>\<open>DeleteObject\<close> has been called.
\<close>
theorem move_keeps_source_when_transfer_fails:
  assumes "(src_type t = Some ''local'' \<and> dest_type t = Some ''s3'' \<and>
              upload E t w = (Inl e, w')) \<or>
           (src_type t = Some ''s3'' \<and> dest_type t = Some ''s3'' \<and>
              copy E t w = (Inl e, w')) \<or>
           (src_type t = Some ''s3'' \<and> dest_type t = Some ''local'' \<and>
              download E t w = (Inl e, w'))"
  shows "move E t w = (Inl e, w') \<and>
         filter is_delete (trace (snd (move E t w))) = filter is_delete (trace w)"
proof -
  from assms have tr: "move_transfer E t w = (Inl e, w')"
    by (auto simp: move_transfer_def)
  then have eq: "move E t w = (Inl e, w')"
    by (simp add: move_def pbind_def)
  from quiet_move_transfer[of E t]
  have "filter is_delete (trace (snd (move_transfer E t w))) = filter is_delete (trace w)"
    by (simp add: quiet_def)
  with eq tr show ?thesis by simp
qed

text \<open>
  Claim C3.  \<^verbatim>\<open>move\<close> from a local source to S3 is \<^verbatim>\<open>upload\<close> followed by
  \<^verbatim>\<open>os.remove\<close> of the source; from S3 to S3 it is \<^verbatim>\<open>copy\<close> followed by
  \<^verbatim>\<open>DeleteObject\<close> on the source; from S3 to a local destination it is \<^verbatim>\<open>download\<close>
  followed by \<^verbatim>\<open>DeleteObject\<close> on the source; for every other pair of kinds it raises
  the exception for invalid path arguments and leaves the world and the trace as they
  were.
\<close>
theorem move_dispatch:
  "(src_type t = Some ''local'' \<and> dest_type t = Some ''s3''
      \<longrightarrow> move E t = pbind (upload E t)
                       (\<lambda>_. effect (Remove (src t)) (os_remove E (src t)))) \<and>
   (src_type t = Some ''s3'' \<and> dest_type t = Some ''s3''
      \<longrightarrow> move E t = pbind (copy E t)
                       (\<lambda>_. pbind (operate E ''DeleteObject'' (object_params E t (src t)))
                              (\<lambda>_. lift (Inr ())))) \<and>
   (src_type t = Some ''s3'' \<and> dest_type t = Some ''local''
      \<longrightarrow> move E t = pbind (download E t)
                       (\<lambda>_. pbind (operate E ''DeleteObject'' (object_params E t (src t)))
                              (\<lambda>_. lift (Inr ())))) \<and>
   (\<not> (src_type t = Some ''local'' \<and> dest_type t = Some ''s3'') \<and>
    \<not> (src_type t = Some ''s3'' \<and> dest_type t = Some ''s3'') \<and>
    \<not> (src_type t = Some ''s3'' \<and> dest_type t = Some ''local'')
      \<longrightarrow> move E t w = (Inl (PyException ''Invalid path arguments for mv''), w))"
  by (auto simp: move_def move_transfer_def delete_def pbind_def lift_def)

section \<open>Runs in the world in memory\<close>

lemmas run_defs =
  move_transfer_def upload_def read_file_def upload_params_def operate_def effect_def
  pbind_def lift_def check_etag_def download_def save_file_def copy_def copy_params_def
  delete_def object_params_def try_pass_def strip_ends_def timetuple_def
  create_multipart_upload_def write_and_stamp_def seconds_of_def

theorem move_keeps_source_when_transfer_fails_witness:
  "fst (upload (mem_env True)
          (a_task ''/tmp/a.json'' ''local'' ''bkt/a.json'' ''s3'' no_options) a_world)
     = Inl MD5Error \<and>
   fst (move (mem_env True)
          (a_task ''/tmp/a.json'' ''local'' ''bkt/a.json'' ''s3'' no_options) a_world)
     = Inl MD5Error \<and>
   filter is_delete (trace (snd (move (mem_env True)
          (a_task ''/tmp/a.json'' ''local'' ''bkt/a.json'' ''s3'' no_options) a_world))) = [] \<and>
   files (extern (snd (move (mem_env True)
          (a_task ''/tmp/a.json'' ''local'' ''bkt/a.json'' ''s3'' no_options) a_world)))
     ''/tmp/a.json'' = Some \<lparr>content = [1, 2, 0], atime = 5, mtime = 5\<rparr>"
proof -
  let ?E = "mem_env True"
  let ?t = "a_task ''/tmp/a.json'' ''local'' ''bkt/a.json'' ''s3'' no_options"
  have f: "fst (upload ?E ?t a_world) = Inl MD5Error"
    by (simp add: run_defs pipeline_defs mem_defs)
  have s: "files (extern (snd (upload ?E ?t a_world))) ''/tmp/a.json''
             = Some \<lparr>content = [1, 2, 0], atime = 5, mtime = 5\<rparr>"
    by (simp add: run_defs pipeline_defs mem_defs)
  have k: "src_type ?t = Some ''local'' \<and> dest_type ?t = Some ''s3''"
    by (simp add: a_task_def)
  have tr: "trace a_world = []" by (simp add: a_world_def)
  from f have u: "upload ?E ?t a_world = (Inl MD5Error, snd (upload ?E ?t a_world))"
    by (metis prod.collapse)
  from k u have h: "(src_type ?t = Some ''local'' \<and> dest_type ?t = Some ''s3'' \<and>
              upload ?E ?t a_world = (Inl MD5Error, snd (upload ?E ?t a_world))) \<or>
           (src_type ?t = Some ''s3'' \<and> dest_type ?t = Some ''s3'' \<and>
              copy ?E ?t a_world = (Inl MD5Error, snd (upload ?E ?t a_world))) \<or>
           (src_type ?t = Some ''s3'' \<and> dest_type ?t = Some ''local'' \<and>
              download ?E ?t a_world = (Inl MD5Error, snd (upload ?E ?t a_world)))"
    by blast
  from move_keeps_source_when_transfer_fails[OF h]
  have a: "move ?E ?t a_world = (Inl MD5Error, snd (upload ?E ?t a_world))"
    and c: "filter is_delete (trace (snd (move ?E ?t a_world))) = filter is_delete (trace a_world)"
    by blast+
  from a have b: "fst (move ?E ?t a_world) = Inl MD5Error" by simp
  from c tr have c': "filter is_delete (trace (snd (move ?E ?t a_world))) = []" by simp
  have d: "files (extern (snd (move ?E ?t a_world))) ''/tmp/a.json''
             = Some \<lparr>content = [1, 2, 0], atime = 5, mtime = 5\<rparr>"
    unfolding a snd_conv by (rule s)
  from f b c' d show ?thesis by blast
qed

theorem move_dispatch_witness:
  "fst (move (mem_env False)
          (a_task ''/tmp/a.json'' ''local'' ''bkt/a.json'' ''s3'' no_options) a_world) = Inr () \<and>
   files (extern (snd (move (mem_env False)
          (a_task ''/tmp/a.json'' ''local'' ''bkt/a.json'' ''s3'' no_options) a_world)))
     ''/tmp/a.json'' = None \<and>
   objects (extern (snd (move (mem_env False)
          (a_task ''/tmp/a.json'' ''local'' ''bkt/a.json'' ''s3'' no_options) a_world)))
     ''bkt/a.json'' = Some [1, 2, 0] \<and>
   fst (move (mem_env False)
          (a_task ''bkt/old.txt'' ''s3'' ''bkt/new.txt'' ''s3'' no_options) a_world) = Inr () \<and>
   objects (extern (snd (move (mem_env False)
          (a_task ''bkt/old.txt'' ''s3'' ''bkt/new.txt'' ''s3'' no_options) a_world)))
     ''bkt/old.txt'' = None \<and>
   objects (extern (snd (move (mem_env False)
          (a_task ''bkt/old.txt'' ''s3'' ''bkt/new.txt'' ''s3'' no_options) a_world)))
     ''bkt/new.txt'' = Some [7, 0] \<and>
   fst (move (mem_env False)
          (a_task ''bkt/old.txt'' ''s3'' ''/tmp/old.txt'' ''local'' no_options) a_world) = Inr () \<and>
   objects (extern (snd (move (mem_env False)
          (a_task ''bkt/old.txt'' ''s3'' ''/tmp/old.txt'' ''local'' no_options) a_world)))
     ''bkt/old.txt'' = None \<and>
   move (mem_env False)
          (a_task ''/tmp/a.json'' ''local'' ''/tmp/b.json'' ''local'' no_options) a_world
     = (Inl (PyException ''Invalid path arguments for mv''), a_world)"
proof -
  let ?E = "mem_env False"
  let ?t1 = "a_task ''/tmp/a.json'' ''local'' ''bkt/a.json'' ''s3'' no_options"
  let ?t2 = "a_task ''bkt/old.txt'' ''s3'' ''bkt/new.txt'' ''s3'' no_options"
  let ?t3 = "a_task ''bkt/old.txt'' ''s3'' ''/tmp/old.txt'' ''local'' no_options"
  let ?t4 = "a_task ''/tmp/a.json'' ''local'' ''/tmp/b.json'' ''local'' no_options"
  have k1: "src_type ?t1 = Some ''local'' \<and> dest_type ?t1 = Some ''s3''"
    by (simp add: a_task_def)
  have k2: "src_type ?t2 = Some ''s3'' \<and> dest_type ?t2 = Some ''s3''"
    by (simp add: a_task_def)
  have k3: "src_type ?t3 = Some ''s3'' \<and> dest_type ?t3 = Some ''local''"
    by (simp add: a_task_def)
  have k4: "\<not> (src_type ?t4 = Some ''local'' \<and> dest_type ?t4 = Some ''s3'') \<and>
            \<not> (src_type ?t4 = Some ''s3'' \<and> dest_type ?t4 = Some ''s3'') \<and>
            \<not> (src_type ?t4 = Some ''s3'' \<and> dest_type ?t4 = Some ''local'')"
    by (simp add: a_task_def)
  from move_dispatch[of ?t1 ?E a_world] k1
  have m1: "move ?E ?t1 = pbind (upload ?E ?t1)
              (\<lambda>_. effect (Remove (src ?t1)) (os_remove ?E (src ?t1)))"
    by blast
  from move_dispatch[of ?t2 ?E a_world] k2
  have m2: "move ?E ?t2 = pbind (copy ?E ?t2)
              (\<lambda>_. pbind (operate ?E ''DeleteObject'' (object_params ?E ?t2 (src ?t2)))
                     (\<lambda>_. lift (Inr ())))"
    by blast
  from move_dispatch[of ?t3 ?E a_world] k3
  have m3: "move ?E ?t3 = pbind (download ?E ?t3)
              (\<lambda>_. pbind (operate ?E ''DeleteObject'' (object_params ?E ?t3 (src ?t3)))
                     (\<lambda>_. lift (Inr ())))"
    by blast
  from move_dispatch[of ?t4 ?E a_world] k4
  have m4: "move ?E ?t4 a_world = (Inl (PyException ''Invalid path arguments for mv''), a_world)"
    by blast
  have r1: "fst (move ?E ?t1 a_world) = Inr ()"
    unfolding m1 by (simp add: run_defs pipeline_defs mem_defs)
  have r1a: "files (extern (snd (move ?E ?t1 a_world))) ''/tmp/a.json'' = None"
    unfolding m1 by (simp add: run_defs pipeline_defs mem_defs)
  have r1b: "objects (extern (snd (move ?E ?t1 a_world))) ''bkt/a.json'' = Some [1, 2, 0]"
    unfolding m1 by (simp add: run_defs pipeline_defs mem_defs)
  have r2: "fst (move ?E ?t2 a_world) = Inr ()"
    unfolding m2 by (simp add: run_defs pipeline_defs mem_defs)
  have r2a: "objects (extern (snd (move ?E ?t2 a_world))) ''bkt/old.txt'' = None"
    unfolding m2 by (simp add: run_defs pipeline_defs mem_defs)
  have r2b: "objects (extern (snd (move ?E ?t2 a_world))) ''bkt/new.txt'' = Some [7, 0]"
    unfolding m2 by (simp add: run_defs pipeline_defs mem_defs)
  have r3: "fst (move ?E ?t3 a_world) = Inr ()"
    unfolding m3 by (simp add: run_defs pipeline_defs mem_defs)
  have r3a: "objects (extern (snd (move ?E ?t3 a_world))) ''bkt/old.txt'' = None"
    unfolding m3 by (simp add: run_defs pipeline_defs mem_defs)
  from r1 r1a r1b r2 r2a r2b r3 r3a m4 show ?thesis by blast
qed

theorem explicit_content_type_wins_witness:
  "handle_object_params (mem_env False)
     (a_task ''/tmp/a.json'' ''local'' ''bkt/a.json'' ''s3''
        (no_options(''guess_mime_type'' \<mapsto> PBool True, ''content_type'' \<mapsto> PList [''text/plain''])))
     Map.empty = Inr [''content_type'' \<mapsto> RStr ''text/plain''] \<and>
   handle_object_params (mem_env False)
     (a_task ''/tmp/a.json'' ''local'' ''bkt/a.json'' ''s3''
        (no_options(''guess_mime_type'' \<mapsto> PBool True)))
     Map.empty = Inr [''content_type'' \<mapsto> RStr ''application/json''] \<and>
   guess_content_type (mem_env False) ''/tmp/a.json'' = Some ''application/json'' \<and>
   [''content_type'' \<mapsto> RStr ''text/plain''] ''content_type'' = Some (RStr ''text/plain'') \<and>
   [''content_type'' \<mapsto> RStr ''application/json''] ''content_type''
     = Some (RStr ''application/json'')"
proof -
  let ?E = "mem_env False"
  let ?o1 = "no_options(''guess_mime_type'' \<mapsto> PBool True, ''content_type'' \<mapsto> PList [''text/plain''])"
  let ?o2 = "no_options(''guess_mime_type'' \<mapsto> PBool True)"
  let ?t1 = "a_task ''/tmp/a.json'' ''local'' ''bkt/a.json'' ''s3'' ?o1"
  let ?t2 = "a_task ''/tmp/a.json'' ''local'' ''bkt/a.json'' ''s3'' ?o2"
  have h1: "handle_object_params ?E ?t1 Map.empty = Inr [''content_type'' \<mapsto> RStr ''text/plain'']"
    by (simp add: pipeline_defs mem_defs)
  have h2: "handle_object_params ?E ?t2 Map.empty
              = Inr [''content_type'' \<mapsto> RStr ''application/json'']"
    by (simp add: pipeline_defs mem_defs)
  have g1: "parameters ?t1 ''guess_mime_type'' = Some (PBool True)"
    and g2: "parameters ?t2 ''guess_mime_type'' = Some (PBool True)"
    and tr: "truthy (PBool True)"
    and c1: "parameters ?t1 ''content_type'' = Some (PList [''text/plain''])"
    and c2: "parameters ?t2 ''content_type'' = Some PNone \<and> \<not> truthy PNone \<and>
             guess_content_type ?E (src ?t2) = Some ''application/json''"
    by (simp_all add: mem_defs)
  have s: "src ?t2 = ''/tmp/a.json''" by (simp add: a_task_def)
  from explicit_content_type_wins[OF h1 g1 tr] c1
  have e1: "[''content_type'' \<mapsto> RStr ''text/plain''] ''content_type'' = Some (RStr ''text/plain'')"
    by blast
  from explicit_content_type_wins[OF h2 g2 tr] c2
  have e2: "[''content_type'' \<mapsto> RStr ''application/json''] ''content_type''
              = Some (RStr ''application/json'')"
    by blast
  from h1 h2 c2 e1 e2 show ?thesis unfolding s by blast
qed

theorem grants_mapped_or_rejected_witness:
  "grants_loop [''read=alice'', ''full=bob=x''] Map.empty
     = Inr [''grant_read'' \<mapsto> RStr ''alice'', ''grant_full_control'' \<mapsto> RStr ''bob=x''] \<and>
   grants_loop [''read=alice'', ''badformat''] Map.empty
     = Inl (ValueError ''grants should be of the form permission=principal'') \<and>
   grants_loop [''own=alice''] Map.empty
     = Inl (ValueError ''permission must be one of: read|readacl|writeacl|full'') \<and>
   copy (mem_env False)
     (a_task ''bkt/old.txt'' ''s3'' ''bkt/new.txt'' ''s3''
        (no_options(''grants'' \<mapsto> PList [''read=alice'', ''badformat''])))
     a_world
     = (Inl (ValueError ''grants should be of the form permission=principal''), a_world) \<and>
   filter is_call (trace (snd (upload (mem_env False)
     (a_task ''/tmp/a.json'' ''local'' ''bkt/a.json'' ''s3''
        (no_options(''grants'' \<mapsto> PList [''read=alice'', ''badformat''])))
     a_world))) = [] \<and>
   grant_ok ''read=alice'' \<and> grant_ok ''full=bob=x'' \<and>
   grants_loop [''read=alice'', ''full=bob=x''] Map.empty
     = Inr (fold assign_grant [''read=alice'', ''full=bob=x''] Map.empty) \<and>
   \<not> grant_ok ''badformat'' \<and>
   (\<exists>msg. grants_loop [''read=alice'', ''badformat''] Map.empty = Inl (ValueError msg)) \<and>
   handle_object_params (mem_env False)
     (a_task ''bkt/old.txt'' ''s3'' ''bkt/new.txt'' ''s3''
        (no_options(''grants'' \<mapsto> PList [''read=alice'', ''full=bob=x''])))
     (copy_params (mem_env False)
        (a_task ''bkt/old.txt'' ''s3'' ''bkt/new.txt'' ''s3''
           (no_options(''grants'' \<mapsto> PList [''read=alice'', ''full=bob=x'']))))
     = Inr ((copy_params (mem_env False)
        (a_task ''bkt/old.txt'' ''s3'' ''bkt/new.txt'' ''s3''
           (no_options(''grants'' \<mapsto> PList [''read=alice'', ''full=bob=x'']))))
          (''grant_read'' \<mapsto> RStr ''alice'', ''grant_full_control'' \<mapsto> RStr ''bob=x'')) \<and>
   ((copy_params (mem_env False)
        (a_task ''bkt/old.txt'' ''s3'' ''bkt/new.txt'' ''s3''
           (no_options(''grants'' \<mapsto> PList [''read=alice'', ''full=bob=x'']))))
          (''grant_read'' \<mapsto> RStr ''alice'', ''grant_full_control'' \<mapsto> RStr ''bob=x''))
     (grant_slot (grant_permission ''read=alice'')) = Some (RStr (grant_principal ''read=alice'')) \<and>
   grant_slot (grant_permission ''read=alice'') = ''grant_read'' \<and>
   grant_principal ''read=alice'' = ''alice'' \<and>
   trace (snd (copy (mem_env False)
     (a_task ''bkt/old.txt'' ''s3'' ''bkt/new.txt'' ''s3''
        (no_options(''grants'' \<mapsto> PList [''read=alice'', ''full=bob=x''])))
     a_world))
     = [Call ''CopyObject''
         ((copy_params (mem_env False)
            (a_task ''bkt/old.txt'' ''s3'' ''bkt/new.txt'' ''s3''
               (no_options(''grants'' \<mapsto> PList [''read=alice'', ''full=bob=x'']))))
          (''grant_read'' \<mapsto> RStr ''alice'', ''grant_full_control'' \<mapsto> RStr ''bob=x''))]"
proof -
  let ?E = "mem_env False"
  let ?o = "no_options(''grants'' \<mapsto> PList [''read=alice'', ''badformat''])"
  let ?t = "a_task ''bkt/old.txt'' ''s3'' ''bkt/new.txt'' ''s3'' ?o"
  let ?u = "a_task ''/tmp/a.json'' ''local'' ''bkt/a.json'' ''s3'' ?o"
  have ok: "grant_ok ''read=alice''" "grant_ok ''full=bob=x''"
    and bad: "\<not> grant_ok ''badformat''" "\<not> grant_ok ''own=alice''"
    by (simp_all add: grant_ok_def grant_permission_def)
  have f1: "find (\<lambda>g. \<not> grant_ok g) [''read=alice'', ''full=bob=x''] = None"
    and f2: "find (\<lambda>g. \<not> grant_ok g) [''read=alice'', ''badformat''] = Some ''badformat''"
    and f3: "find (\<lambda>g. \<not> grant_ok g) [''own=alice''] = Some ''own=alice''"
    using ok bad by simp_all
  have a: "fold assign_grant [''read=alice'', ''full=bob=x''] Map.empty
             = [''grant_read'' \<mapsto> RStr ''alice'', ''grant_full_control'' \<mapsto> RStr ''bob=x'']"
    by (simp add: assign_grant_def grant_slot_def grant_permission_def grant_principal_def)
  have e: "grant_error ''badformat''
             = ValueError ''grants should be of the form permission=principal''"
          "grant_error ''own=alice''
             = ValueError ''permission must be one of: read|readacl|writeacl|full''"
    by (simp_all add: grant_error_def)
  have p: "parameters ?t ''acl'' = Some PNone \<and> PNone \<noteq> PBool True \<and>
           parameters ?t ''grants'' = Some (PList [''read=alice'', ''badformat'']) \<and>
           find (\<lambda>g. \<not> grant_ok g) [''read=alice'', ''badformat''] = Some ''badformat''"
    and q: "parameters ?u ''acl'' = Some PNone \<and> PNone \<noteq> PBool True \<and>
           parameters ?u ''grants'' = Some (PList [''read=alice'', ''badformat'']) \<and>
           find (\<lambda>g. \<not> grant_ok g) [''read=alice'', ''badformat''] = Some ''badformat''"
    using f2 by (simp_all add: a_task_def no_options_def)
  have tr: "trace a_world = []" by (simp add: a_world_def)
  note T = grants_mapped_or_rejected
  have 1: "grants_loop [''read=alice'', ''full=bob=x''] Map.empty
     = Inr [''grant_read'' \<mapsto> RStr ''alice'', ''grant_full_control'' \<mapsto> RStr ''bob=x'']"
    by (rule T[of "[''read=alice'', ''full=bob=x'']" Map.empty ?t PNone "''badformat''" ?E a_world,
          THEN conjunct1, unfolded f1 option.case a])
  have 2: "grants_loop [''read=alice'', ''badformat''] Map.empty
     = Inl (ValueError ''grants should be of the form permission=principal'')"
    by (rule T[of "[''read=alice'', ''badformat'']" Map.empty ?t PNone "''badformat''" ?E a_world,
          THEN conjunct1, unfolded f2 option.case e])
  have 3: "grants_loop [''own=alice''] Map.empty
     = Inl (ValueError ''permission must be one of: read|readacl|writeacl|full'')"
    by (rule T[of "[''own=alice'']" Map.empty ?t PNone "''badformat''" ?E a_world,
          THEN conjunct1, unfolded f3 option.case e])
  from T[of "[''read=alice'', ''badformat'']" Map.empty ?t PNone "''badformat''" ?E a_world,
          THEN conjunct2, THEN conjunct1, THEN mp, OF p]
  have "copy ?E ?t a_world = (Inl (grant_error ''badformat''), a_world)"
    by blast
  then have 4: "copy ?E ?t a_world
     = (Inl (ValueError ''grants should be of the form permission=principal''), a_world)"
    unfolding e .
  from T[of "[''read=alice'', ''badformat'']" Map.empty ?u PNone "''badformat''" ?E a_world,
          THEN conjunct2, THEN conjunct1, THEN mp, OF q]
  have "filter is_call (trace (snd (upload ?E ?u a_world))) = filter is_call (trace a_world)"
    by blast
  then have 5: "filter is_call (trace (snd (upload ?E ?u a_world))) = []"
    by (simp add: tr)
  have allok: "\<forall>g \<in> set [''read=alice'', ''full=bob=x'']. grant_ok g"
    and somebad: "\<exists>g \<in> set [''read=alice'', ''badformat'']. \<not> grant_ok g"
    using ok bad by simp_all
  from T[of "[''read=alice'', ''full=bob=x'']" Map.empty ?t PNone "''badformat''" ?E a_world,
          THEN conjunct2, THEN conjunct2, THEN conjunct1, THEN mp, OF allok]
  have 6: "grants_loop [''read=alice'', ''full=bob=x''] Map.empty
     = Inr (fold assign_grant [''read=alice'', ''full=bob=x''] Map.empty)" .
  from T[of "[''read=alice'', ''badformat'']" Map.empty ?t PNone "''badformat''" ?E a_world,
          THEN conjunct2, THEN conjunct2, THEN conjunct2, THEN conjunct1, THEN mp, OF somebad]
  have 7: "\<exists>msg. grants_loop [''read=alice'', ''badformat''] Map.empty = Inl (ValueError msg)" .
  let ?gs = "[''read=alice'', ''full=bob=x'']"
  let ?v = "a_task ''bkt/old.txt'' ''s3'' ''bkt/new.txt'' ''s3'' (no_options(''grants'' \<mapsto> PList ?gs))"
  let ?pc = "(copy_params ?E ?v)
               (''grant_read'' \<mapsto> RStr ''alice'', ''grant_full_control'' \<mapsto> RStr ''bob=x'')"
  have run: "handle_object_params ?E ?v (copy_params ?E ?v) = Inr ?pc"
    by (simp add: pipeline_defs copy_params_def split1_def permission_to_param_def mem_defs)
  have gr: "parameters ?v ''grants'' = Some (PList ?gs)"
    by (simp add: a_task_def)
  have ent: "''read=alice'' \<in> set ?gs \<and>
         (\<forall>g' \<in> set ?gs. grant_permission g' = grant_permission ''read=alice''
            \<longrightarrow> grant_principal g' = grant_principal ''read=alice'')"
    by (simp add: grant_permission_def grant_principal_def)
  have sl: "grant_slot (grant_permission ''read=alice'') = ''grant_read''"
    and pr: "grant_principal ''read=alice'' = ''alice''"
    by (simp_all add: grant_slot_def grant_permission_def grant_principal_def)
  note P = T[of ?gs "copy_params ?E ?v" ?v PNone "''badformat''" ?E a_world ?pc "''grant_read''"
             "''read=alice''" ?pc,
             THEN conjunct2, THEN conjunct2, THEN conjunct2, THEN conjunct2]
  from P[THEN conjunct1, THEN mp, OF conjI[OF gr run]] ent
  have 8: "?pc (grant_slot (grant_permission ''read=alice''))
             = Some (RStr (grant_principal ''read=alice''))"
    by blast
  from P[THEN conjunct2, THEN conjunct1, THEN mp, OF run] tr
  have 9: "trace (snd (copy ?E ?v a_world)) = [Call ''CopyObject'' ?pc]"
    by simp
  from 1 2 3 4 5 6 7 8 9 run sl pr ok bad show ?thesis by blast
qed

theorem save_file_mismatch_leaves_world_witness:
  "Body \<lparr>Body = Some [1, 0], ETag = Some (quoted ''bad''), UploadId = None\<rparr> = Some [1, 0] \<and>
   ETag \<lparr>Body = Some [1, 0], ETag = Some (quoted ''bad''), UploadId = None\<rparr>
     = Some (quoted ''bad'') \<and>
   strip_ends (quoted ''bad'') \<noteq> checksum (mem_env False) [1, 0] \<and>
   save_file (mem_env False) ''/tmp/new/b.bin''
     \<lparr>Body = Some [1, 0], ETag = Some (quoted ''bad''), UploadId = None\<rparr> (Some a_time) a_world
     = (Inl MD5Error, a_world)"
proof -
  let ?r = "\<lparr>Body = Some [1, 0], ETag = Some (quoted ''bad''), UploadId = None\<rparr>"
  have b: "Body ?r = Some [1, 0]" and e: "ETag ?r = Some (quoted ''bad'')" by simp_all
  have c: "strip_ends (quoted ''bad'') \<noteq> checksum (mem_env False) [1, 0]"
    by (simp add: strip_ends_def quoted_def mem_env_def toy_checksum_def)
  from save_file_mismatch_leaves_world[OF b e c, of "''/tmp/new/b.bin''" "Some a_time" a_world]
    b e c
  show ?thesis by blast
qed

theorem download_sets_both_times_witness:
  "fst (download (mem_env False)
          (a_task ''bkt/old.txt'' ''s3'' ''/tmp/new/old.txt'' ''local'' no_options) a_world)
     = Inr () \<and>
   seconds_of (mem_env False) a_time = 129607 \<and>
   files (extern (snd (download (mem_env False)
          (a_task ''bkt/old.txt'' ''s3'' ''/tmp/new/old.txt'' ''local'' no_options) a_world)))
     ''/tmp/new/old.txt'' = Some \<lparr>content = [7, 0], atime = 129607, mtime = 129607\<rparr> \<and>
   (\<exists>data l x1 x2.
      last_update (a_task ''bkt/old.txt'' ''s3'' ''/tmp/new/old.txt'' ''local'' no_options)
        = Some l \<and>
      os_open_write (mem_env False) ''/tmp/new/old.txt'' data x1 = (Inr (), x2) \<and>
      os_utime (mem_env False) ''/tmp/new/old.txt''
        (seconds_of (mem_env False) l, seconds_of (mem_env False) l) x2 =
        (Inr (), extern (snd (download (mem_env False)
          (a_task ''bkt/old.txt'' ''s3'' ''/tmp/new/old.txt'' ''local'' no_options) a_world))))"
proof -
  let ?E = "mem_env False"
  let ?t = "a_task ''bkt/old.txt'' ''s3'' ''/tmp/new/old.txt'' ''local'' no_options"
  have ok: "fst (download ?E ?t a_world) = Inr ()"
    by (simp add: run_defs mem_defs Let_def)
  have s: "seconds_of ?E a_time = 129607"
    by (simp add: seconds_of_def timetuple_def mem_defs)
  have f: "files (extern (snd (download ?E ?t a_world))) ''/tmp/new/old.txt''
             = Some \<lparr>content = [7, 0], atime = 129607, mtime = 129607\<rparr>"
    by (simp add: run_defs mem_defs Let_def)
  have d: "dest ?t = ''/tmp/new/old.txt''" by (simp add: a_task_def)
  from download_sets_both_times[OF ok] ok s f show ?thesis unfolding d by blast
qed

text \<open>
  The claim C7 as the spec has it fails: for a destination without a directory part,
  \<^verbatim>\<open>os.makedirs('')\<close> raises an error that is not the one of an existing directory, and
  \<^verbatim>\<open>save_file\<close> returns normally all the same.
\<close>
theorem save_file_makedirs_error_counterexample:
  "\<not> os_path_exists (mem_env False) (os_path_dirname (mem_env False) ''out.txt'')
       (extern a_world) \<and>
   os_makedirs (mem_env False) (os_path_dirname (mem_env False) ''out.txt'') (extern a_world)
     = (Inl (OSError ENOENT), extern a_world) \<and>
   OSError ENOENT \<noteq> OSError EEXIST \<and>
   fst (save_file (mem_env False) ''out.txt''
          \<lparr>Body = Some [1, 0], ETag = Some (quoted ''10''), UploadId = None\<rparr>
          (Some a_time) a_world) = Inr ()"
  by (simp add: run_defs mem_defs Let_def)

text \<open>
  Claim C7, as amended.  When the directory of the destination does not exist,
  \<^verbatim>\<open>save_file\<close> calls \<^verbatim>\<open>os.makedirs\<close> and, whatever that call returns or raises,
  goes on to write the file on the state the call left: no error of the directory
  creation is propagated, and \<^verbatim>\<open>save_file\<close> returns normally whenever the write and
  the setting of the times succeed.
\<close>
theorem save_file_ignores_makedirs_outcome:
  assumes "Body response_data = Some data" "ETag response_data = Some e"
    and "strip_ends e = checksum E data"
    and "\<not> os_path_exists E (os_path_dirname E filename) (extern w)"
    and "os_makedirs E (os_path_dirname E filename) (extern w) = (res, x1)"
  shows "save_file E filename response_data lu w =
           write_and_stamp E filename data lu
             \<lparr>extern = x1, trace = trace w @ [MakeDirs (os_path_dirname E filename)]\<rparr> \<and>
         (os_open_write E filename data x1 = (Inr (), x2) \<and> lu = Some l \<and>
          os_utime E filename (seconds_of E l, seconds_of E l) x2 = (Inr (), x3)
          \<longrightarrow> save_file E filename response_data lu w =
                (Inr (), \<lparr>extern = x3,
                          trace = trace w @ [MakeDirs (os_path_dirname E filename),
                            WriteFile filename data,
                            Utime filename (seconds_of E l) (seconds_of E l)]\<rparr>))"
proof (intro conjI impI)
  show eq: "save_file E filename response_data lu w =
           write_and_stamp E filename data lu
             \<lparr>extern = x1, trace = trace w @ [MakeDirs (os_path_dirname E filename)]\<rparr>"
    using assms by (rule save_file_dir_missing)
  assume "os_open_write E filename data x1 = (Inr (), x2) \<and> lu = Some l \<and>
          os_utime E filename (seconds_of E l, seconds_of E l) x2 = (Inr (), x3)"
  then show "save_file E filename response_data lu w =
                (Inr (), \<lparr>extern = x3,
                          trace = trace w @ [MakeDirs (os_path_dirname E filename),
                            WriteFile filename data,
                            Utime filename (seconds_of E l) (seconds_of E l)]\<rparr>)"
    unfolding eq
    by (simp add: write_and_stamp_def pbind_def effect_def lift_def Let_def seconds_of_def
        timetuple_whole_seconds)
qed

theorem save_file_ignores_makedirs_outcome_witness:
  "\<not> os_path_exists (mem_env False) (os_path_dirname (mem_env False) ''out.txt'')
       (extern a_world) \<and>
   os_makedirs (mem_env False) (os_path_dirname (mem_env False) ''out.txt'') (extern a_world)
     = (Inl (OSError ENOENT), extern a_world) \<and>
   save_file (mem_env False) ''out.txt''
     \<lparr>Body = Some [1, 0], ETag = Some (quoted ''10''), UploadId = None\<rparr> (Some a_time) a_world
   = write_and_stamp (mem_env False) ''out.txt'' [1, 0] (Some a_time)
       \<lparr>extern = extern a_world,
        trace = trace a_world @ [MakeDirs (os_path_dirname (mem_env False) ''out.txt'')]\<rparr> \<and>
   fst (os_open_write (mem_env False) ''out.txt'' [1, 0] (extern a_world)) = Inr () \<and>
   fst (os_utime (mem_env False) ''out.txt''
          (seconds_of (mem_env False) a_time, seconds_of (mem_env False) a_time)
          (snd (os_open_write (mem_env False) ''out.txt'' [1, 0] (extern a_world)))) = Inr () \<and>
   fst (save_file (mem_env False) ''out.txt''
     \<lparr>Body = Some [1, 0], ETag = Some (quoted ''10''), UploadId = None\<rparr> (Some a_time) a_world)
   = Inr () \<and>
   trace (snd (save_file (mem_env False) ''out.txt''
     \<lparr>Body = Some [1, 0], ETag = Some (quoted ''10''), UploadId = None\<rparr> (Some a_time) a_world))
   = [MakeDirs [], WriteFile ''out.txt'' [1, 0], Utime ''out.txt'' 129607 129607]"
proof -
  let ?E = "mem_env False"
  let ?r = "\<lparr>Body = Some [1, 0], ETag = Some (quoted ''10''), UploadId = None\<rparr>"
  let ?x2 = "snd (os_open_write ?E ''out.txt'' [1, 0] (extern a_world))"
  let ?ts = "seconds_of ?E a_time"
  let ?x3 = "snd (os_utime ?E ''out.txt'' (?ts, ?ts) ?x2)"
  have b: "Body ?r = Some [1, 0]" and e: "ETag ?r = Some (quoted ''10'')" by simp_all
  have c: "strip_ends (quoted ''10'') = checksum ?E [1, 0]"
    by (simp add: strip_ends_def quoted_def mem_env_def toy_checksum_def)
  have x: "\<not> os_path_exists ?E (os_path_dirname ?E ''out.txt'') (extern a_world)"
    by (simp add: mem_defs)
  have m: "os_makedirs ?E (os_path_dirname ?E ''out.txt'') (extern a_world)
             = (Inl (OSError ENOENT), extern a_world)"
    by (simp add: mem_defs)
  have wf: "fst (os_open_write ?E ''out.txt'' [1, 0] (extern a_world)) = Inr ()"
    by (simp add: mem_defs)
  have uf: "fst (os_utime ?E ''out.txt'' (?ts, ?ts) ?x2) = Inr ()"
    by (simp add: mem_defs)
  have d: "os_path_dirname ?E ''out.txt'' = []" and ts: "?ts = 129607"
    and tr: "trace a_world = []"
    by (simp_all add: seconds_of_def timetuple_def mem_defs)
  from wf have w: "os_open_write ?E ''out.txt'' [1, 0] (extern a_world) = (Inr (), ?x2)"
    by (metis prod.collapse)
  from uf have u: "os_utime ?E ''out.txt'' (?ts, ?ts) ?x2 = (Inr (), ?x3)"
    by (metis prod.collapse)
  note T = save_file_ignores_makedirs_outcome[OF b e c x m, of "Some a_time" ?x2 a_time ?x3]
  from T have 1: "save_file ?E ''out.txt'' ?r (Some a_time) a_world
      = write_and_stamp ?E ''out.txt'' [1, 0] (Some a_time)
          \<lparr>extern = extern a_world,
           trace = trace a_world @ [MakeDirs (os_path_dirname ?E ''out.txt'')]\<rparr>"
    by blast
  from T w u have 2: "save_file ?E ''out.txt'' ?r (Some a_time) a_world
      = (Inr (), \<lparr>extern = ?x3,
                   trace = trace a_world @ [MakeDirs (os_path_dirname ?E ''out.txt''),
                     WriteFile ''out.txt'' [1, 0], Utime ''out.txt'' ?ts ?ts]\<rparr>)"
    by blast
  have 3: "fst (save_file ?E ''out.txt'' ?r (Some a_time) a_world) = Inr ()"
    unfolding 2 by simp
  have 4: "trace (snd (save_file ?E ''out.txt'' ?r (Some a_time) a_world))
      = [MakeDirs [], WriteFile ''out.txt'' [1, 0], Utime ''out.txt'' 129607 129607]"
    unfolding 2 by (simp add: d ts tr)
  from x m 1 wf uf 3 4 show ?thesis by blast
qed

end
